theory Spec2Isabelle
  imports Complex_Main
begin

section \<open>Message fetching and the initial fetch: \<^verbatim>\<open>src/message/fetchActions.js\<close>\<close>

text \<open>
  The file defines Redux thunks. A thunk reads the store with \<^verbatim>\<open>getState()\<close>, hands
  actions (and further thunks) to \<^verbatim>\<open>dispatch\<close>, and calls the Zulip server through
  \<^verbatim>\<open>api.*\<close>. The embedding makes these effects explicit:
  \<^item> the store and everything a flow does that can be observed from outside (an action
    dispatched, a request sent) form a \<open>world\<close>, passed through every thunk;
  \<^item> a rejected promise is the left summand of \<open>error + 'a\<close>;
  \<^item> the answer of the server to a request is an argument of the model, so that a
    theorem about all answers quantifies over it;
  \<^item> the loop of \<^verbatim>\<open>tryFetch\<close>, which has no bound, is a partial function: \<open>None\<close>
    is the promise that never settles.
\<close>

subsection \<open>Data\<close>

text \<open>
  JavaScript numbers. The ones that occur here are message identifiers, message counts and
  halves of counts; \<^verbatim>\<open>/\<close> is the division of numbers, not of integers, so they are
  rationals rather than integers.
\<close>

type_synonym number = rat

text \<open>
  Modelled from the spec: the types \<^verbatim>\<open>Narrow\<close>, \<^verbatim>\<open>Message\<close> and \<^verbatim>\<open>UserId\<close> come from
  \<^verbatim>\<open>types\<close>, which is not under \<^verbatim>\<open>src/\<close>, and so do the form of a narrow that the
  server takes and the table of users. The spec has a scope as an opaque identifier
  compared by structure and a message as an opaque payload; the file only passes these
  values on.
\<close>

type_synonym narrow = string
type_synonym api_narrow = "(string \<times> string) list"
type_synonym users_by_id = "(nat \<times> string) list"
type_synonym user_id = nat

datatype message = Message int

text \<open>
  Modelled from the spec: the errors of \<^verbatim>\<open>api/apiErrors\<close> are not under \<^verbatim>\<open>src/\<close>.
  An error is what \<^verbatim>\<open>catch (e)\<close> receives: a failure answered by the server, with its
  HTTP status, a failure of the network, or anything else. The classification
  \<^verbatim>\<open>isClientError\<close> is a parameter of the model (see \<open>deps\<close> below), so the shape of
  an error matters only to the examples.
\<close>

datatype error = ApiError nat | NetworkError | OtherError string

text \<open>
  Modelled from the spec: the type \<^verbatim>\<open>Auth\<close> is not under \<^verbatim>\<open>src/\<close>. The file reads its
  field \<^verbatim>\<open>realm\<close> and passes the whole on to the server calls.
\<close>

record auth =
  realm :: string
  apiKey :: string
  email :: string

text \<open>The type of both \<^verbatim>\<open>caughtUp\<close> and \<^verbatim>\<open>fetching\<close>: one flag per direction.\<close>

record direction_flags =
  older :: bool
  newer :: bool

record session =
  needsInitialFetch :: bool

text \<open>
  Modelled from the spec: the type \<^verbatim>\<open>GlobalState\<close> and its selectors are not under
  \<^verbatim>\<open>src/\<close>. The file reads the store only through the selectors, so the state is the
  record of what each of them returns, under the selector's name; a message id that is not
  known is \<open>None\<close> (\<^verbatim>\<open>undefined\<close>). The selectors are taken to return a value for every
  state.
\<close>

record global_state =
  getAuth :: auth
  getSession :: session
  getFirstMessageId :: "narrow \<Rightarrow> number option"
  getLastMessageId :: "narrow \<Rightarrow> number option"
  getCaughtUpForNarrow :: "narrow \<Rightarrow> direction_flags"
  getFetchingForNarrow :: "narrow \<Rightarrow> direction_flags"
  getAllUsersById :: users_by_id
  getOwnUserId :: user_id

text \<open>
  Modelled from the spec: the answers of the two server calls of the initial fetch are
  declared outside \<^verbatim>\<open>src/\<close>. The file reads \<^verbatim>\<open>queue_id\<close> and \<^verbatim>\<open>last_event_id\<close> of the
  first and \<^verbatim>\<open>zulip_version\<close> of the second, and passes the rest on. A \<^verbatim>\<open>ZulipVersion\<close>
  is built from the version string; how two of them compare is a parameter (see \<open>deps\<close>).
\<close>

record initial_data =
  queue_id :: string
  last_event_id :: int
  initial_payload :: string

record server_settings =
  zulip_version :: string

datatype zulip_version = ZulipVersion string

text \<open>
  What \<^verbatim>\<open>dispatch\<close> can be given. The first five are the actions the file builds itself;
  the last five are the values of the imported \<^verbatim>\<open>logout()\<close>, \<^verbatim>\<open>realmInit(..)\<close>,
  \<^verbatim>\<open>startEventPolling(..)\<close>, \<^verbatim>\<open>sendOutbox()\<close> and \<^verbatim>\<open>initNotifications()\<close>,
  whose inner workings belong to other files.
  The fields of \<open>MESSAGE_FETCH_COMPLETE\<close> are, in this order: messages, narrow, anchor,
  numBefore, numAfter, foundNewest, foundOldest, ownUserId.
\<close>

datatype action =
    INITIAL_FETCH_START
  | INITIAL_FETCH_COMPLETE
  | MESSAGE_FETCH_START narrow number number
  | MESSAGE_FETCH_ERROR narrow error
  | MESSAGE_FETCH_COMPLETE "message list" narrow number number number "bool option" "bool option" user_id
  | logout
  | realmInit initial_data zulip_version
  | startEventPolling string int
  | sendOutbox
  | initNotifications

subsection \<open>What the file imports\<close>

text \<open>
  Constants and functions that \<^verbatim>\<open>fetchActions.js\<close> imports from files that are not
  under \<^verbatim>\<open>src/\<close>. They are parameters: every theorem holds for all their values.
  \<open>messagesPerRequest\<close> and \<open>serverDataOnStartup\<close> are the two fields read from
  \<^verbatim>\<open>config\<close>; \<open>isAtLeast\<close> is the method of \<^verbatim>\<open>ZulipVersion\<close>.
\<close>

record deps =
  isClientError :: "error \<Rightarrow> bool"
  messagesPerRequest :: number
  serverDataOnStartup :: "string list"
  FIRST_UNREAD_ANCHOR :: number
  LAST_MESSAGE_ANCHOR :: number
  ALL_PRIVATE_NARROW :: narrow
  apiNarrowOfNarrow :: "narrow \<Rightarrow> users_by_id \<Rightarrow> api_narrow"
  isAtLeast :: "zulip_version \<Rightarrow> zulip_version \<Rightarrow> bool"
  MIN_RECENTPMS_SERVER_VERSION :: zulip_version

text \<open>
  The reducer of the store, also imported: the state after an action, from the state before
  it. For the five dispatched values that come from other files it stands for whatever they
  do to the store before \<^verbatim>\<open>dispatch\<close> returns.
\<close>

type_synonym reducer = "global_state \<Rightarrow> action \<Rightarrow> global_state"

subsection \<open>Effects\<close>

text \<open>
  What a flow does that the outside sees, in the order it happens: a value handed to
  \<^verbatim>\<open>dispatch\<close>, or a call of \<^verbatim>\<open>api.getMessages(auth, {narrow, anchor, numBefore,
  numAfter, useFirstUnread})\<close> with these arguments (\<open>None\<close> for a key that is absent).
\<close>

datatype event =
    Dispatch action
  | ApiGetMessages auth api_narrow number number number "bool option"

record world =
  store :: global_state
  trace :: "event list"

definition getState :: "world \<Rightarrow> global_state" where
  "getState w = store w"

definition dispatch :: "reducer \<Rightarrow> action \<Rightarrow> world \<Rightarrow> world" where
  "dispatch reducer a w = \<lparr>store = reducer (store w) a, trace = trace w @ [Dispatch a]\<rparr>"

definition api_getMessages ::
  "auth \<Rightarrow> api_narrow \<Rightarrow> number \<Rightarrow> number \<Rightarrow> number \<Rightarrow> bool option \<Rightarrow> world \<Rightarrow> world" where
  "api_getMessages a n anc nb na ufu w = w\<lparr>trace := trace w @ [ApiGetMessages a n anc nb na ufu]\<rparr>"

text \<open>
  Modelled from the spec: the answer of \<^verbatim>\<open>api.getMessages\<close> is declared outside
  \<^verbatim>\<open>src/\<close>. These are the three fields the file reads; the two flags are optional in
  the completion action, hence \<open>option\<close>.
\<close>

record get_messages_response =
  messages :: "message list"
  found_newest :: "bool option"
  found_oldest :: "bool option"

subsection \<open>Action creators, lines 35-82 and 163-169\<close>

definition messageFetchStart :: "narrow \<Rightarrow> number \<Rightarrow> number \<Rightarrow> action" where
  "messageFetchStart narrow numBefore numAfter = MESSAGE_FETCH_START narrow numBefore numAfter"

definition messageFetchError :: "narrow \<Rightarrow> error \<Rightarrow> action" where
  "messageFetchError narrow e = MESSAGE_FETCH_ERROR narrow e"

definition messageFetchComplete ::
  "message list \<Rightarrow> narrow \<Rightarrow> number \<Rightarrow> number \<Rightarrow> number \<Rightarrow> bool option \<Rightarrow> bool option
     \<Rightarrow> user_id \<Rightarrow> action" where
  "messageFetchComplete msgs narrow anchor numBefore numAfter foundNewest foundOldest ownUserId =
     MESSAGE_FETCH_COMPLETE msgs narrow anchor numBefore numAfter foundNewest foundOldest ownUserId"

definition initialFetchStart :: action where
  "initialFetchStart = INITIAL_FETCH_START"

definition initialFetchComplete :: action where
  "initialFetchComplete = INITIAL_FETCH_COMPLETE"

subsection \<open>\<^verbatim>\<open>fetchMessages\<close>, lines 91-123\<close>

record fetch_args =
  narrow :: narrow
  anchor :: number
  numBefore :: number
  numAfter :: number

text \<open>
  An \<^verbatim>\<open>async\<close> function runs until its first \<^verbatim>\<open>await\<close> before its caller goes on.
  The part of \<^verbatim>\<open>fetchMessages\<close> up to the \<^verbatim>\<open>await\<close> of line 99 dispatches the start
  action and sends the request.
\<close>

definition fetchMessages_request :: "deps \<Rightarrow> reducer \<Rightarrow> fetch_args \<Rightarrow> world \<Rightarrow> world" where
  "fetchMessages_request deps reducer fetchArgs w =
     (let w1 = dispatch reducer
                 (messageFetchStart (narrow fetchArgs) (numBefore fetchArgs) (numAfter fetchArgs)) w
      in api_getMessages (getAuth (getState w1))
           (apiNarrowOfNarrow deps (narrow fetchArgs) (getAllUsersById (getState w1)))
           (anchor fetchArgs) (numBefore fetchArgs) (numAfter fetchArgs)
           (Some (anchor fetchArgs = FIRST_UNREAD_ANCHOR deps))
           w1)"

text \<open>
  The part after the \<^verbatim>\<open>await\<close>, lines 104-122, run when the promise of
  \<^verbatim>\<open>api.getMessages\<close> has settled with \<open>outcome\<close>, in the world as it is then. The
  \<^verbatim>\<open>catch\<close> also covers an exception thrown by the imported functions called inside the
  \<^verbatim>\<open>try\<close>; the model takes them to be total, so the only failure is that of the request.
\<close>

definition fetchMessages_settled ::
  "reducer \<Rightarrow> fetch_args \<Rightarrow> error + get_messages_response \<Rightarrow> world
     \<Rightarrow> (error + message list) \<times> world" where
  "fetchMessages_settled reducer fetchArgs outcome w =
     (case outcome of
        Inr response \<Rightarrow>
          (Inr (messages response),
           dispatch reducer
             (messageFetchComplete (messages response) (narrow fetchArgs) (anchor fetchArgs)
                (numBefore fetchArgs) (numAfter fetchArgs)
                (found_newest response) (found_oldest response)
                (getOwnUserId (getState w))) w)
      | Inl e \<Rightarrow>
          (Inl e, dispatch reducer (messageFetchError (narrow fetchArgs) e) w))"

text \<open>The whole thunk, for a flow that nothing else interleaves with.\<close>

definition fetchMessages ::
  "deps \<Rightarrow> reducer \<Rightarrow> fetch_args \<Rightarrow> error + get_messages_response \<Rightarrow> world
     \<Rightarrow> (error + message list) \<times> world" where
  "fetchMessages deps reducer fetchArgs outcome w =
     fetchMessages_settled reducer fetchArgs outcome (fetchMessages_request deps reducer fetchArgs w)"

subsection \<open>\<^verbatim>\<open>fetchOlder\<close> and \<^verbatim>\<open>fetchNewer\<close>, lines 125-161\<close>

text \<open>
  Neither is \<^verbatim>\<open>async\<close> and neither waits for the promise that \<^verbatim>\<open>dispatch\<close> returns:
  when they return, the start action has been dispatched and the request sent, and
  \<open>fetchMessages_settled\<close> runs later.
\<close>

definition fetchOlder :: "deps \<Rightarrow> reducer \<Rightarrow> narrow \<Rightarrow> world \<Rightarrow> world" where
  "fetchOlder deps reducer = (\<lambda>narrow w.
      let state = getState w;
          firstMessageId = getFirstMessageId state narrow;
          caughtUp = getCaughtUpForNarrow state narrow;
          fetching = getFetchingForNarrow state narrow;
          needsInitialFetch = needsInitialFetch (getSession state)
      in if \<not> needsInitialFetch \<and> \<not> older fetching \<and> \<not> older caughtUp
            \<and> firstMessageId \<noteq> None
         then fetchMessages_request deps reducer
                \<lparr>narrow = narrow, anchor = the firstMessageId,
                 numBefore = messagesPerRequest deps, numAfter = 0\<rparr> w
         else w)"

definition fetchNewer :: "deps \<Rightarrow> reducer \<Rightarrow> narrow \<Rightarrow> world \<Rightarrow> world" where
  "fetchNewer deps reducer = (\<lambda>narrow w.
      let state = getState w;
          lastMessageId = getLastMessageId state narrow;
          caughtUp = getCaughtUpForNarrow state narrow;
          fetching = getFetchingForNarrow state narrow;
          needsInitialFetch = needsInitialFetch (getSession state)
      in if \<not> needsInitialFetch \<and> \<not> newer fetching \<and> \<not> newer caughtUp
            \<and> lastMessageId \<noteq> None
         then fetchMessages_request deps reducer
                \<lparr>narrow = narrow, anchor = the lastMessageId,
                 numBefore = 0, numAfter = messagesPerRequest deps\<rparr> w
         else w)"

subsection \<open>\<^verbatim>\<open>isFetchNeededAtAnchor\<close> and \<^verbatim>\<open>fetchMessagesInNarrow\<close>, lines 172-219\<close>

definition isFetchNeededAtAnchor :: "global_state \<Rightarrow> narrow \<Rightarrow> number \<Rightarrow> bool" where
  "isFetchNeededAtAnchor state = (\<lambda>narrow anchor.
      let caughtUp = getCaughtUpForNarrow state narrow
      in \<not> (newer caughtUp \<and> older caughtUp))"

text \<open>
  The second parameter has a default value: \<open>None\<close> is the call that leaves it out. The
  result \<open>Inr None\<close> is the promise resolved with \<^verbatim>\<open>undefined\<close>. The thunk returns the
  promise of \<^verbatim>\<open>fetchMessages\<close>, so it settles as that one does.
\<close>

definition fetchMessagesInNarrow ::
  "deps \<Rightarrow> reducer \<Rightarrow> narrow \<Rightarrow> number option \<Rightarrow> error + get_messages_response \<Rightarrow> world
     \<Rightarrow> (error + message list option) \<times> world" where
  "fetchMessagesInNarrow deps reducer = (\<lambda>narrow anchor_arg outcome w.
      let anchor = (case anchor_arg of None \<Rightarrow> FIRST_UNREAD_ANCHOR deps | Some a \<Rightarrow> a)
      in if \<not> isFetchNeededAtAnchor (getState w) narrow anchor then (Inr None, w)
         else
           (case fetchMessages deps reducer
                   \<lparr>narrow = narrow, anchor = anchor,
                    numBefore = messagesPerRequest deps / 2,
                    numAfter = messagesPerRequest deps / 2\<rparr> outcome w
            of (Inr msgs, w') \<Rightarrow> (Inr (Some msgs), w')
             | (Inl e, w') \<Rightarrow> (Inl e, w')))"

subsection \<open>\<^verbatim>\<open>fetchPrivateMessages\<close>, lines 232-252\<close>

text \<open>Up to the \<^verbatim>\<open>await\<close> of line 234: the request is sent, nothing is dispatched.\<close>

definition fetchPrivateMessages_request :: "deps \<Rightarrow> world \<Rightarrow> world" where
  "fetchPrivateMessages_request deps w =
     (let auth = getAuth (getState w)
      in api_getMessages auth
           (apiNarrowOfNarrow deps (ALL_PRIVATE_NARROW deps) (getAllUsersById (getState w)))
           (LAST_MESSAGE_ANCHOR deps) 100 0 None w)"

text \<open>
  After the \<^verbatim>\<open>await\<close>. There is no \<^verbatim>\<open>try\<close>: a rejection of the request rejects the
  promise of the thunk.
\<close>

definition fetchPrivateMessages_settled ::
  "deps \<Rightarrow> reducer \<Rightarrow> error + get_messages_response \<Rightarrow> world \<Rightarrow> (error + unit) \<times> world" where
  "fetchPrivateMessages_settled deps reducer outcome w =
     (case outcome of
        Inl e \<Rightarrow> (Inl e, w)
      | Inr response \<Rightarrow>
          (Inr (),
           dispatch reducer
             (messageFetchComplete (messages response) (ALL_PRIVATE_NARROW deps)
                (LAST_MESSAGE_ANCHOR deps) 100 0
                (found_newest response) (found_oldest response)
                (getOwnUserId (getState w))) w))"

definition fetchPrivateMessages ::
  "deps \<Rightarrow> reducer \<Rightarrow> error + get_messages_response \<Rightarrow> world \<Rightarrow> (error + unit) \<times> world" where
  "fetchPrivateMessages deps reducer outcome w =
     fetchPrivateMessages_settled deps reducer outcome (fetchPrivateMessages_request deps w)"

subsection \<open>\<^verbatim>\<open>tryFetch\<close>, lines 261-283\<close>

text \<open>
  Modelled from the spec: the class \<^verbatim>\<open>BackoffMachine\<close> of \<^verbatim>\<open>utils/async\<close> is not
  under \<^verbatim>\<open>src/\<close>. The spec describes it as an internal counter with a delay that grows
  with it, created anew by each call of the retrier. Only the counter is kept: the
  durations are randomised real time.
\<close>

record BackoffMachine =
  waitsCompleted :: nat

definition new_BackoffMachine :: BackoffMachine where
  "new_BackoffMachine = \<lparr>waitsCompleted = 0\<rparr>"

definition wait :: "BackoffMachine \<Rightarrow> BackoffMachine" where
  "wait backoffMachine = backoffMachine\<lparr>waitsCompleted := Suc (waitsCompleted backoffMachine)\<rparr>"

text \<open>
  \<^verbatim>\<open>tryFetch(func)\<close>, lines 261-283. The wrapped operation is effectful and may answer
  differently each time it is invoked: \<open>func k\<close> is how its promise settles at invocation
  number \<open>k\<close> (counted from 0). The loop state is that number and the backoff machine.
  The result carries the machine, which tells how many waits were made.
\<close>

partial_function (option) tryFetch_loop ::
  "deps \<Rightarrow> (nat \<Rightarrow> error + 'a) \<Rightarrow> nat \<Rightarrow> BackoffMachine
     \<Rightarrow> ((error + 'a) \<times> BackoffMachine) option" where
  "tryFetch_loop deps func k backoffMachine =
     (case func k of
        Inr v \<Rightarrow> Some (Inr v, backoffMachine)
      | Inl e \<Rightarrow>
          if isClientError deps e then Some (Inl e, backoffMachine)
          else tryFetch_loop deps func (Suc k) (wait backoffMachine))"

definition tryFetch ::
  "deps \<Rightarrow> (nat \<Rightarrow> error + 'a) \<Rightarrow> ((error + 'a) \<times> BackoffMachine) option" where
  "tryFetch deps func = tryFetch_loop deps func 0 new_BackoffMachine"

text \<open>An invocation that fails with an error outside the client class.\<close>

definition transient_failure :: "deps \<Rightarrow> (error + 'a) \<Rightarrow> bool" where
  "transient_failure deps r = (case r of Inl e \<Rightarrow> \<not> isClientError deps e | Inr v \<Rightarrow> False)"

text \<open>A classification for the examples: the HTTP statuses 400 to 499.\<close>

definition http_4xx :: "error \<Rightarrow> bool" where
  "http_4xx e = (case e of ApiError status \<Rightarrow> 400 \<le> status \<and> status \<le> 499 | _ \<Rightarrow> False)"

subsection \<open>\<^verbatim>\<open>doInitialFetch\<close>, lines 306-358\<close>

record client_capabilities =
  notification_settings_null :: bool
  bulk_message_deletion :: bool
  user_avatar_url_field_optional :: bool

record register_params =
  fetch_event_types :: "string list"
  apply_markdown :: bool
  include_subscribers :: bool
  client_gravatar :: bool
  client_capabilities :: client_capabilities

text \<open>
  The server, for the two calls that are retried: how the promise of the call settles at
  its invocation number \<open>k\<close>, given the arguments of the call.
\<close>

record api =
  registerForEvents :: "nat \<Rightarrow> auth \<Rightarrow> register_params \<Rightarrow> error + initial_data"
  getServerSettings :: "nat \<Rightarrow> string \<Rightarrow> error + server_settings"

text \<open>
  \<^verbatim>\<open>Promise.all\<close> of two promises: rejected as soon as one of them is, whatever the other
  does; fulfilled when both are; pending for ever otherwise. When both are rejected the
  reason is that of the one rejected first in time, which the model does not know; it
  takes the first in the array, and the only caller drops the reason.
\<close>

definition Promise_all2 ::
  "((error + 'a) \<times> BackoffMachine) option \<Rightarrow> ((error + 'b) \<times> BackoffMachine) option
     \<Rightarrow> (error + 'a \<times> 'b) option" where
  "Promise_all2 p q =
     (case (p, q) of
        (Some (Inl e, _), _) \<Rightarrow> Some (Inl e)
      | (_, Some (Inl e, _)) \<Rightarrow> Some (Inl e)
      | (Some (Inr x, _), Some (Inr y, _)) \<Rightarrow> Some (Inr (x, y))
      | _ \<Rightarrow> None)"

text \<open>The object given to \<^verbatim>\<open>api.registerForEvents\<close>, lines 323-336.\<close>

definition registerForEvents_params :: "deps \<Rightarrow> register_params" where
  "registerForEvents_params deps =
     \<lparr>fetch_event_types = serverDataOnStartup deps,
      apply_markdown = True,
      include_subscribers = False,
      client_gravatar = True,
      client_capabilities =
        \<lparr>notification_settings_null = True,
         bulk_message_deletion = True,
         user_avatar_url_field_optional = True\<rparr>\<rparr>"

text \<open>
  The flow of \<^verbatim>\<open>doInitialFetch\<close> until it returns; \<open>None\<close> when it never does. The two
  retry loops run side by side and their requests and waits are not put into the trace,
  which has no order for them. \<^verbatim>\<open>fetchPrivateMessages()\<close> is dispatched and not awaited:
  its request is sent before line 356 runs, and \<open>fetchPrivateMessages_settled\<close> runs after
  \<^verbatim>\<open>doInitialFetch\<close> has returned.
\<close>

definition doInitialFetch :: "deps \<Rightarrow> reducer \<Rightarrow> api \<Rightarrow> world \<Rightarrow> world option" where
  "doInitialFetch deps reducer api w =
     (let w1 = dispatch reducer initialFetchStart w;
          auth = getAuth (getState w1)
      in case Promise_all2
                (tryFetch deps (\<lambda>k. registerForEvents api k auth (registerForEvents_params deps)))
                (tryFetch deps (\<lambda>k. getServerSettings api k (realm auth)))
         of None \<Rightarrow> None
          | Some (Inl e) \<Rightarrow> Some (dispatch reducer logout w1)
          | Some (Inr (initData, serverSettings)) \<Rightarrow>
              (let serverVersion = ZulipVersion (zulip_version serverSettings);
                   w2 = dispatch reducer (realmInit initData serverVersion) w1;
                   w3 = dispatch reducer initialFetchComplete w2;
                   w4 = dispatch reducer
                          (startEventPolling (queue_id initData) (last_event_id initData)) w3;
                   w5 = (if \<not> isAtLeast deps serverVersion (MIN_RECENTPMS_SERVER_VERSION deps)
                         then fetchPrivateMessages_request deps w4 else w4);
                   w6 = dispatch reducer sendOutbox w5
               in Some (dispatch reducer initNotifications w6)))"

text \<open>
  The same flow together with what comes after it. Lines 352-354 call
  \<^verbatim>\<open>dispatch(fetchPrivateMessages())\<close> as a statement: the promise it returns is kept
  by nobody, and \<^verbatim>\<open>doInitialFetch\<close> goes on to line 356 and returns. Its own promise
  is then resolved: every path of the function ends by returning, the \<^verbatim>\<open>catch\<close> of
  line 340 having taken any rejection of \<^verbatim>\<open>Promise.all\<close>. The request of
  \<^verbatim>\<open>fetchPrivateMessages\<close> settles afterwards, with \<open>legacy_outcome\<close>. The result
  records the world after all that, how the promise of \<^verbatim>\<open>doInitialFetch\<close> settled, and
  how the discarded promise of \<^verbatim>\<open>fetchPrivateMessages\<close> settled (\<open>None\<close> when the thunk
  was not dispatched).
\<close>

record bootstrap =
  after :: world
  own_promise :: "error + unit"
  legacy_promise :: "(error + unit) option"

definition doInitialFetch_whole ::
  "deps \<Rightarrow> reducer \<Rightarrow> api \<Rightarrow> error + get_messages_response \<Rightarrow> world \<Rightarrow> bootstrap option" where
  "doInitialFetch_whole deps reducer api legacy_outcome w =
     (let w1 = dispatch reducer initialFetchStart w;
          auth = getAuth (getState w1)
      in case Promise_all2
                (tryFetch deps (\<lambda>k. registerForEvents api k auth (registerForEvents_params deps)))
                (tryFetch deps (\<lambda>k. getServerSettings api k (realm auth)))
         of None \<Rightarrow> None
          | Some (Inl e) \<Rightarrow>
              Some \<lparr>after = dispatch reducer logout w1, own_promise = Inr (),
                    legacy_promise = None\<rparr>
          | Some (Inr (initData, serverSettings)) \<Rightarrow>
              (let serverVersion = ZulipVersion (zulip_version serverSettings);
                   w2 = dispatch reducer (realmInit initData serverVersion) w1;
                   w3 = dispatch reducer initialFetchComplete w2;
                   w4 = dispatch reducer
                          (startEventPolling (queue_id initData) (last_event_id initData)) w3
               in if \<not> isAtLeast deps serverVersion (MIN_RECENTPMS_SERVER_VERSION deps)
                  then
                    (let w5 = fetchPrivateMessages_request deps w4;
                         w6 = dispatch reducer sendOutbox w5;
                         w7 = dispatch reducer initNotifications w6
                     in case fetchPrivateMessages_settled deps reducer legacy_outcome w7
                        of (r, w8) \<Rightarrow>
                          Some \<lparr>after = w8, own_promise = Inr (), legacy_promise = Some r\<rparr>)
                  else
                    (let w6 = dispatch reducer sendOutbox w4;
                         w7 = dispatch reducer initNotifications w6
                     in Some \<lparr>after = w7, own_promise = Inr (), legacy_promise = None\<rparr>)))"

subsection \<open>Several calls in a row\<close>

text \<open>
  The store between two calls of \<^verbatim>\<open>fetchNewer\<close>. A request that has been sent is in
  flight until \<open>fetchMessages_settled\<close> runs for it, which dispatches one action. So a
  history is a list of things that happen one after the other: a call of
  \<^verbatim>\<open>dispatch(fetchNewer(narrow))\<close>, which runs up to the request, or an action reaching
  the store, from the settling of some request or from any other flow.
\<close>

datatype stimulus = Call_fetchNewer narrow | Dispatched action

fun run :: "deps \<Rightarrow> reducer \<Rightarrow> stimulus list \<Rightarrow> world \<Rightarrow> world" where
  "run deps reducer [] w = w"
| "run deps reducer (Call_fetchNewer scope # rest) w =
     run deps reducer rest (fetchNewer deps reducer scope w)"
| "run deps reducer (Dispatched a # rest) w = run deps reducer rest (dispatch reducer a w)"

text \<open>
  The actions with which \<open>fetchMessages_settled\<close> ends a fetch for a narrow.
\<close>

fun finishes_fetch :: "narrow \<Rightarrow> action \<Rightarrow> bool" where
  "finishes_fetch scope (MESSAGE_FETCH_COMPLETE msgs n a nb na fn fo u) = (n = scope)"
| "finishes_fetch scope (MESSAGE_FETCH_ERROR n e) = (n = scope)"
| "finishes_fetch scope _ = False"

fun keeps_in_flight :: "narrow \<Rightarrow> stimulus \<Rightarrow> bool" where
  "keeps_in_flight scope (Call_fetchNewer n) = True"
| "keeps_in_flight scope (Dispatched a) = (\<not> finishes_fetch scope a)"

text \<open>
  Modelled from the spec: the reducer of the in-flight flags is not under \<^verbatim>\<open>src/\<close>.
  The spec leaves the flags to the store, which is to update them from the start,
  completion and error signals before the next decision is taken. That is: the start
  action of a fetch of newer messages sets the flag \<open>newer\<close> of its narrow, and the flag of
  a narrow stays set under every action other than a completion or an error for that
  narrow.
\<close>

definition store_tracks_newer :: "deps \<Rightarrow> reducer \<Rightarrow> bool" where
  "store_tracks_newer deps reducer =
     ((\<forall>state scope.
         newer (getFetchingForNarrow
                  (reducer state (MESSAGE_FETCH_START scope 0 (messagesPerRequest deps))) scope))
      \<and> (\<forall>state a scope.
         newer (getFetchingForNarrow state scope) \<and> \<not> finishes_fetch scope a \<longrightarrow>
         newer (getFetchingForNarrow (reducer state a) scope)))"

subsection \<open>Reading a trace\<close>

text \<open>
  What a flow added to the trace, the requests among those events, and the dispatched
  values among them.
\<close>

fun is_request :: "event \<Rightarrow> bool" where
  "is_request (ApiGetMessages a n anc nb na ufu) = True"
| "is_request (Dispatch a) = False"

definition new_events :: "world \<Rightarrow> world \<Rightarrow> event list" where
  "new_events w w' = drop (length (trace w)) (trace w')"

definition requests :: "event list \<Rightarrow> event list" where
  "requests evs = filter is_request evs"

definition signals :: "event list \<Rightarrow> event list" where
  "signals evs = filter (\<lambda>ev. \<not> is_request ev) evs"

subsection \<open>Example values\<close>

text \<open>
  Concrete values of the parameters, on which the theorems below are run. The numbers are
  those of the spec's examples: 50 messages per request, a first message 1000.
\<close>

definition example_deps :: deps where
  "example_deps =
     \<lparr>isClientError = http_4xx,
      messagesPerRequest = 50,
      serverDataOnStartup = [''realm'', ''subscription''],
      FIRST_UNREAD_ANCHOR = 0,
      LAST_MESSAGE_ANCHOR = 9007199254740991,
      ALL_PRIVATE_NARROW = ''is:private'',
      apiNarrowOfNarrow = (\<lambda>narrow users. [(''narrow'', narrow)]),
      isAtLeast = (\<lambda>v m. v \<notin> {ZulipVersion ''1.9.1'', ZulipVersion ''2.0.0''}),
      MIN_RECENTPMS_SERVER_VERSION = ZulipVersion ''2.1''\<rparr>"

definition example_auth :: auth where
  "example_auth = \<lparr>realm = ''https://chat.example'', apiKey = ''key'', email = ''me@example''\<rparr>"

definition example_state :: global_state where
  "example_state =
     \<lparr>getAuth = example_auth,
      getSession = \<lparr>needsInitialFetch = False\<rparr>,
      getFirstMessageId = (\<lambda>narrow. if narrow = ''stream:general'' then Some 1000 else None),
      getLastMessageId = (\<lambda>narrow. if narrow = ''stream:general'' then Some 2000 else None),
      getCaughtUpForNarrow = (\<lambda>narrow. \<lparr>older = False, newer = False\<rparr>),
      getFetchingForNarrow = (\<lambda>narrow. \<lparr>older = False, newer = False\<rparr>),
      getAllUsersById = [(7, ''me'')],
      getOwnUserId = 7\<rparr>"

definition example_world :: world where
  "example_world = \<lparr>store = example_state, trace = []\<rparr>"

definition example_caught_up :: global_state where
  "example_caught_up =
     example_state\<lparr>getCaughtUpForNarrow := (\<lambda>narrow. \<lparr>older = True, newer = True\<rparr>)\<rparr>"

definition example_api :: "string \<Rightarrow> api" where
  "example_api version =
     \<lparr>registerForEvents = (\<lambda>k auth params.
        if k < 2 then Inl NetworkError
        else Inr \<lparr>queue_id = ''queue-1'', last_event_id = -1, initial_payload = ''realm data''\<rparr>),
      getServerSettings = (\<lambda>k realm. Inr \<lparr>zulip_version = version\<rparr>)\<rparr>"

definition example_api_denied :: api where
  "example_api_denied =
     \<lparr>registerForEvents = (\<lambda>k auth params.
        Inr \<lparr>queue_id = ''queue-1'', last_event_id = -1, initial_payload = ''realm data''\<rparr>),
      getServerSettings = (\<lambda>k realm. if k < 1 then Inl (ApiError 502) else Inl (ApiError 401))\<rparr>"

definition example_reply :: initial_data where
  "example_reply = \<lparr>queue_id = ''queue-1'', last_event_id = -1, initial_payload = ''realm data''\<rparr>"

text \<open>
  A reducer that keeps the in-flight flags as \<open>store_tracks_newer\<close> asks: a start action
  sets the flag of each direction it fetches in, a completion clears those, an error
  clears both.
\<close>

definition example_reducer :: reducer where
  "example_reducer state a =
     (case a of
        MESSAGE_FETCH_START n nb na \<Rightarrow>
          state\<lparr>getFetchingForNarrow := (getFetchingForNarrow state)
            (n := \<lparr>older = older (getFetchingForNarrow state n) \<or> 0 < nb,
                   newer = newer (getFetchingForNarrow state n) \<or> 0 < na\<rparr>)\<rparr>
      | MESSAGE_FETCH_ERROR n e \<Rightarrow>
          state\<lparr>getFetchingForNarrow := (getFetchingForNarrow state)
            (n := \<lparr>older = False, newer = False\<rparr>)\<rparr>
      | MESSAGE_FETCH_COMPLETE msgs n anc nb na fn fo u \<Rightarrow>
          state\<lparr>getFetchingForNarrow := (getFetchingForNarrow state)
            (n := \<lparr>older = older (getFetchingForNarrow state n) \<and> \<not> 0 < nb,
                   newer = newer (getFetchingForNarrow state n) \<and> \<not> 0 < na\<rparr>)\<rparr>
      | _ \<Rightarrow> state)"

text \<open>
  Two worlds for the narrow \<open>''stream:general''\<close>, with that reducer: the one in which
  \<open>fetchNewer\<close> has just sent its request, which has not settled; and the one after
  \<open>fetchMessagesInNarrow\<close> has then run from start to completion.
\<close>

definition example_newer_in_flight :: world where
  "example_newer_in_flight =
     fetchNewer example_deps example_reducer ''stream:general'' example_world"

definition example_centred :: world where
  "example_centred =
     snd (fetchMessagesInNarrow example_deps example_reducer ''stream:general'' None
            (Inr \<lparr>messages = [Message 1999], found_newest = Some False,
                  found_oldest = Some False\<rparr>)
            example_newer_in_flight)"

section \<open>The retry loop\<close>

lemma tryFetch_loop_retries:
  assumes "\<forall>j<n. transient_failure deps (func (k + j))"
  shows "tryFetch_loop deps func k m =
         tryFetch_loop deps func (k + n) (m\<lparr>waitsCompleted := waitsCompleted m + n\<rparr>)"
  using assms
proof (induction n arbitrary: k m)
  case 0
  show ?case by simp
next
  case (Suc n)
  from Suc.prems have first: "transient_failure deps (func k)"
    by (metis add.right_neutral zero_less_Suc)
  from Suc.prems have rest: "\<forall>j<n. transient_failure deps (func (Suc k + j))"
    by (metis Suc_less_eq add_Suc_right add_Suc_shift)
  have "tryFetch_loop deps func k m = tryFetch_loop deps func (Suc k) (wait m)"
    using first
    by (subst tryFetch_loop.simps) (simp add: transient_failure_def split: sum.splits)
  also have "\<dots> = tryFetch_loop deps func (Suc k + n)
                    ((wait m)\<lparr>waitsCompleted := waitsCompleted (wait m) + n\<rparr>)"
    by (rule Suc.IH [OF rest])
  finally show ?case by (simp add: wait_def)
qed

lemma tryFetch_loop_success:
  "func k = Inr v \<Longrightarrow> tryFetch_loop deps func k m = Some (Inr v, m)"
  by (subst tryFetch_loop.simps) simp

lemma tryFetch_loop_terminal:
  "func k = Inl e \<Longrightarrow> isClientError deps e \<Longrightarrow> tryFetch_loop deps func k m = Some (Inl e, m)"
  by (subst tryFetch_loop.simps) simp

lemma tryFetch_loop_result:
  assumes "tryFetch_loop deps func k m = Some y"
  shows "\<exists>n. waitsCompleted (snd y) = waitsCompleted m + n \<and> fst y = func (k + n)
        \<and> (\<forall>j<n. transient_failure deps (func (k + j)))
        \<and> (\<forall>e. fst y = Inl e \<longrightarrow> isClientError deps e)"
proof (rule tryFetch_loop.raw_induct
    [where P = "\<lambda>deps func k m y.
       \<exists>n. waitsCompleted (snd y) = waitsCompleted m + n \<and> fst y = func (k + n)
        \<and> (\<forall>j<n. transient_failure deps (func (k + j)))
        \<and> (\<forall>e. fst y = Inl e \<longrightarrow> isClientError deps e)", OF _ assms], goal_cases)
  case (1 loop deps func k m y)
  show ?case
  proof (cases "func k")
    case (Inr v)
    with 1(2) have "fst y = func (k + 0)" "snd y = m" by auto
    then show ?thesis using Inr by (intro exI [of _ 0]) auto
  next
    case (Inl e)
    show ?thesis
    proof (cases "isClientError deps e")
      case True
      with 1(2) Inl have "fst y = func (k + 0)" "snd y = m" by auto
      then show ?thesis using Inl True by (intro exI [of _ 0]) auto
    next
      case False
      with 1(2) Inl have "loop deps func (Suc k) (wait m) = Some y" by simp
      from 1(1) [OF this] obtain n where n:
        "waitsCompleted (snd y) = waitsCompleted (wait m) + n" "fst y = func (Suc k + n)"
        "\<forall>j<n. transient_failure deps (func (Suc k + j))"
        "\<forall>e. fst y = Inl e \<longrightarrow> isClientError deps e"
        by blast
      have "\<forall>j<Suc n. transient_failure deps (func (k + j))"
      proof (intro allI impI)
        fix j assume "j < Suc n"
        show "transient_failure deps (func (k + j))"
        proof (cases j)
          case 0
          then show ?thesis using Inl False by (simp add: transient_failure_def)
        next
          case (Suc i)
          with \<open>j < Suc n\<close> n(3) show ?thesis by simp
        qed
      qed
      with n show ?thesis by (intro exI [of _ "Suc n"]) (simp add: wait_def)
    qed
  qed
qed

lemma tryFetch_loop_never:
  assumes "\<forall>j. transient_failure deps (func (k + j))"
  shows "tryFetch_loop deps func k m = None"
proof (rule ccontr)
  assume "tryFetch_loop deps func k m \<noteq> None"
  then obtain y where "tryFetch_loop deps func k m = Some y" by blast
  from tryFetch_loop_result [OF this] obtain n
    where "fst y = func (k + n)" "\<forall>e. fst y = Inl e \<longrightarrow> isClientError deps e" by blast
  with assms [rule_format, of n] show False
    by (cases "func (k + n)") (auto simp: transient_failure_def)
qed

text \<open>
  Claim C1. Let the first \<open>n\<close> invocations of the wrapped operation fail with errors
  outside the client class. If invocation \<open>n\<close> fails with a client error, \<open>tryFetch\<close>
  rejects with that error, and if it succeeds, \<open>tryFetch\<close> resolves with its value; in
  both cases exactly \<open>n\<close> backoff waits were made, one for each of the failures before,
  so a client error at the first invocation is raised after zero waits. Whenever
  \<open>tryFetch\<close> rejects, the error is a client error: failures of the other class never
  end the loop, however many they are, and when every invocation fails that way the
  promise stays pending.
\<close>

theorem tryFetch_outcomes:
  "((\<forall>j<n. transient_failure deps (func j)) \<longrightarrow>
      (\<forall>e. func n = Inl e \<and> isClientError deps e \<longrightarrow>
           tryFetch deps func = Some (Inl e, \<lparr>waitsCompleted = n\<rparr>)) \<and>
      (\<forall>v. func n = Inr v \<longrightarrow>
           tryFetch deps func = Some (Inr v, \<lparr>waitsCompleted = n\<rparr>)))
   \<and> (\<forall>e m. tryFetch deps func = Some (Inl e, m) \<longrightarrow> isClientError deps e)
   \<and> ((\<forall>j. transient_failure deps (func j)) \<longrightarrow> tryFetch deps func = None)"
proof (intro conjI impI allI)
  fix e
  assume "\<forall>j<n. transient_failure deps (func j)" and "func n = Inl e \<and> isClientError deps e"
  then show "tryFetch deps func = Some (Inl e, \<lparr>waitsCompleted = n\<rparr>)"
    using tryFetch_loop_retries [of n deps func 0 new_BackoffMachine]
      tryFetch_loop_terminal [of func n e deps]
    by (simp add: tryFetch_def new_BackoffMachine_def)
next
  fix v
  assume "\<forall>j<n. transient_failure deps (func j)" and "func n = Inr v"
  then show "tryFetch deps func = Some (Inr v, \<lparr>waitsCompleted = n\<rparr>)"
    using tryFetch_loop_retries [of n deps func 0 new_BackoffMachine]
      tryFetch_loop_success [of func n v deps]
    by (simp add: tryFetch_def new_BackoffMachine_def)
next
  fix e m
  assume "tryFetch deps func = Some (Inl e, m)"
  then show "isClientError deps e"
    using tryFetch_loop_result [of deps func 0 new_BackoffMachine "(Inl e, m)"]
    by (auto simp: tryFetch_def)
next
  assume "\<forall>j. transient_failure deps (func j)"
  then show "tryFetch deps func = None"
    using tryFetch_loop_never [of deps func 0] by (simp add: tryFetch_def)
qed

theorem tryFetch_outcomes_witness:
  "tryFetch example_deps (\<lambda>k. if k < 2 then Inl NetworkError else Inr (7::nat))
     = Some (Inr 7, \<lparr>waitsCompleted = 2\<rparr>)
   \<and> tryFetch example_deps (\<lambda>k. if k < 1 then Inl (ApiError 502) else Inl (ApiError 401) :: error + nat)
     = Some (Inl (ApiError 401), \<lparr>waitsCompleted = 1\<rparr>)
   \<and> tryFetch example_deps (\<lambda>k. Inl (ApiError 401) :: error + nat)
     = Some (Inl (ApiError 401), \<lparr>waitsCompleted = 0\<rparr>)
   \<and> isClientError example_deps (ApiError 401)
   \<and> tryFetch example_deps (\<lambda>k. Inl NetworkError :: error + nat) = None"
proof -
  let ?twice = "\<lambda>k::nat. if k < 2 then Inl NetworkError else Inr (7::nat)"
  let ?once = "\<lambda>k::nat. if k < 1 then Inl (ApiError 502) else Inl (ApiError 401) :: error + nat"
  let ?denied = "\<lambda>k::nat. Inl (ApiError 401) :: error + nat"
  let ?down = "\<lambda>k::nat. Inl NetworkError :: error + nat"
  have a: "tryFetch example_deps ?twice = Some (Inr 7, \<lparr>waitsCompleted = 2\<rparr>)"
    using tryFetch_outcomes [where n = 2 and deps = example_deps and func = ?twice]
    by (simp add: transient_failure_def example_deps_def http_4xx_def)
  have b: "tryFetch example_deps ?once = Some (Inl (ApiError 401), \<lparr>waitsCompleted = 1\<rparr>)"
    using tryFetch_outcomes [where n = 1 and deps = example_deps and func = ?once]
    by (simp add: transient_failure_def example_deps_def http_4xx_def)
  have c: "tryFetch example_deps ?denied = Some (Inl (ApiError 401), \<lparr>waitsCompleted = 0\<rparr>)"
    using tryFetch_outcomes [where n = 0 and deps = example_deps and func = ?denied]
    by (simp add: transient_failure_def example_deps_def http_4xx_def)
  have d: "isClientError example_deps (ApiError 401)"
    using tryFetch_outcomes [where n = 0 and deps = example_deps and func = ?denied] c
    by blast
  have e: "tryFetch example_deps ?down = None"
    using tryFetch_outcomes [where n = 0 and deps = example_deps and func = ?down]
    by (simp add: transient_failure_def example_deps_def http_4xx_def)
  from a b c d e show ?thesis by blast
qed

section \<open>Single fetches\<close>

lemma new_events_append [simp]:
  "trace w' = trace w @ evs \<Longrightarrow> new_events w w' = evs"
  by (simp add: new_events_def)

lemma new_events_same [simp]: "new_events w w = []"
  by (simp add: new_events_def)

lemma fetchMessages_request_eq:
  "fetchMessages_request deps reducer fetchArgs w =
     (let start = MESSAGE_FETCH_START (narrow fetchArgs) (numBefore fetchArgs) (numAfter fetchArgs);
          s1 = reducer (store w) start
      in \<lparr>store = s1,
          trace = trace w @
            [Dispatch start,
             ApiGetMessages (getAuth s1)
               (apiNarrowOfNarrow deps (narrow fetchArgs) (getAllUsersById s1))
               (anchor fetchArgs) (numBefore fetchArgs) (numAfter fetchArgs)
               (Some (anchor fetchArgs = FIRST_UNREAD_ANCHOR deps))]\<rparr>)"
  by (simp add: fetchMessages_request_def dispatch_def api_getMessages_def getState_def
      messageFetchStart_def Let_def)

lemma fetchMessages_eq:
  "fetchMessages deps reducer fetchArgs outcome w =
     (let start = MESSAGE_FETCH_START (narrow fetchArgs) (numBefore fetchArgs) (numAfter fetchArgs);
          s1 = reducer (store w) start;
          request = ApiGetMessages (getAuth s1)
                      (apiNarrowOfNarrow deps (narrow fetchArgs) (getAllUsersById s1))
                      (anchor fetchArgs) (numBefore fetchArgs) (numAfter fetchArgs)
                      (Some (anchor fetchArgs = FIRST_UNREAD_ANCHOR deps));
          final = (case outcome of
                     Inr response \<Rightarrow>
                       MESSAGE_FETCH_COMPLETE (messages response) (narrow fetchArgs)
                         (anchor fetchArgs) (numBefore fetchArgs) (numAfter fetchArgs)
                         (found_newest response) (found_oldest response) (getOwnUserId s1)
                   | Inl e \<Rightarrow> MESSAGE_FETCH_ERROR (narrow fetchArgs) e)
      in (map_sum id messages outcome,
          \<lparr>store = reducer s1 final,
           trace = trace w @ [Dispatch start, request, Dispatch final]\<rparr>))"
  by (simp add: fetchMessages_def fetchMessages_settled_def fetchMessages_request_eq
      dispatch_def getState_def messageFetchComplete_def messageFetchError_def Let_def
      split: sum.splits)

text \<open>
  Claim C5. A run of \<open>fetchMessages\<close> adds exactly three events to the trace, in this
  order: the start action; one request, with the narrow in the server's form; then, when
  the request succeeded, the completion action with the messages, the two flags of the
  answer and the own user id read from the store, and when it failed, the error action
  with that error. The promise resolves with the messages in the first case and rejects
  with the same error in the second. The request is the only one: nothing is retried.
\<close>

theorem fetchMessages_start_then_complete_or_error:
  "fetchMessages deps reducer fetchArgs outcome w =
     (let start = MESSAGE_FETCH_START (narrow fetchArgs) (numBefore fetchArgs) (numAfter fetchArgs);
          s1 = reducer (store w) start;
          request = ApiGetMessages (getAuth s1)
                      (apiNarrowOfNarrow deps (narrow fetchArgs) (getAllUsersById s1))
                      (anchor fetchArgs) (numBefore fetchArgs) (numAfter fetchArgs)
                      (Some (anchor fetchArgs = FIRST_UNREAD_ANCHOR deps))
      in case outcome of
           Inr response \<Rightarrow>
             (let complete = MESSAGE_FETCH_COMPLETE (messages response) (narrow fetchArgs)
                               (anchor fetchArgs) (numBefore fetchArgs) (numAfter fetchArgs)
                               (found_newest response) (found_oldest response) (getOwnUserId s1)
              in (Inr (messages response),
                  \<lparr>store = reducer s1 complete,
                   trace = trace w @ [Dispatch start, request, Dispatch complete]\<rparr>))
         | Inl e \<Rightarrow>
             (let failed = MESSAGE_FETCH_ERROR (narrow fetchArgs) e
              in (Inl e,
                  \<lparr>store = reducer s1 failed,
                   trace = trace w @ [Dispatch start, request, Dispatch failed]\<rparr>)))
   \<and> length (requests (new_events w (snd (fetchMessages deps reducer fetchArgs outcome w)))) = 1"
  by (simp add: fetchMessages_eq Let_def requests_def split: sum.splits)

theorem fetchMessages_witness:
  "fetchMessages example_deps (\<lambda>s a. s)
      \<lparr>narrow = ''stream:general'', anchor = 1000, numBefore = 50, numAfter = 0\<rparr>
      (Inl NetworkError) example_world
    = (Inl NetworkError,
       \<lparr>store = example_state,
        trace = [Dispatch (MESSAGE_FETCH_START ''stream:general'' 50 0),
                 ApiGetMessages example_auth [(''narrow'', ''stream:general'')] 1000 50 0 (Some False),
                 Dispatch (MESSAGE_FETCH_ERROR ''stream:general'' NetworkError)]\<rparr>)
   \<and> fetchMessages example_deps (\<lambda>s a. s)
      \<lparr>narrow = ''stream:general'', anchor = 0, numBefore = 25, numAfter = 25\<rparr>
      (Inr \<lparr>messages = [Message 998, Message 999], found_newest = Some False,
            found_oldest = Some True\<rparr>) example_world
    = (Inr [Message 998, Message 999],
       \<lparr>store = example_state,
        trace = [Dispatch (MESSAGE_FETCH_START ''stream:general'' 25 25),
                 ApiGetMessages example_auth [(''narrow'', ''stream:general'')] 0 25 25 (Some True),
                 Dispatch (MESSAGE_FETCH_COMPLETE [Message 998, Message 999] ''stream:general''
                   0 25 25 (Some False) (Some True) 7)]\<rparr>)"
  using fetchMessages_start_then_complete_or_error
    [of example_deps "\<lambda>s a. s"
      "\<lparr>narrow = ''stream:general'', anchor = 1000, numBefore = 50, numAfter = 0\<rparr>"
      "Inl NetworkError" example_world]
    fetchMessages_start_then_complete_or_error
    [of example_deps "\<lambda>s a. s"
      "\<lparr>narrow = ''stream:general'', anchor = 0, numBefore = 25, numAfter = 25\<rparr>"
      "Inr \<lparr>messages = [Message 998, Message 999], found_newest = Some False,
            found_oldest = Some True\<rparr>" example_world]
  by (simp add: example_world_def example_state_def example_deps_def Let_def)

text \<open>
  Claim C3. \<open>fetchOlder\<close> sends a request exactly when the session does not need its
  initial fetch, no older fetch is in flight for the narrow, the narrow is not caught up
  towards the older messages, and its first message id is known. When it sends none it
  leaves the world as it was: no request and no action. When it sends one, it has
  dispatched the start action and sent a single request with the first message id as
  anchor, \<open>messagesPerRequest\<close> messages before it and none after it.
\<close>

theorem fetchOlder_iff_guard:
  "(requests (new_events w (fetchOlder deps reducer scope w)) \<noteq> []) =
      (needsInitialFetch (getSession (store w)) = False
       \<and> older (getFetchingForNarrow (store w) scope) = False
       \<and> older (getCaughtUpForNarrow (store w) scope) = False
       \<and> (\<exists>firstMessageId. getFirstMessageId (store w) scope = Some firstMessageId))
   \<and> (requests (new_events w (fetchOlder deps reducer scope w)) = [] \<longrightarrow>
        fetchOlder deps reducer scope w = w)
   \<and> (\<forall>firstMessageId.
        requests (new_events w (fetchOlder deps reducer scope w)) \<noteq> [] \<and>
        getFirstMessageId (store w) scope = Some firstMessageId \<longrightarrow>
        (let start = MESSAGE_FETCH_START scope (messagesPerRequest deps) 0;
             s1 = reducer (store w) start
         in fetchOlder deps reducer scope w =
              \<lparr>store = s1,
               trace = trace w @
                 [Dispatch start,
                  ApiGetMessages (getAuth s1)
                    (apiNarrowOfNarrow deps scope (getAllUsersById s1))
                    firstMessageId (messagesPerRequest deps) 0
                    (Some (firstMessageId = FIRST_UNREAD_ANCHOR deps))]\<rparr>))"
proof (cases "\<not> needsInitialFetch (getSession (store w))
       \<and> \<not> older (getFetchingForNarrow (store w) scope)
       \<and> \<not> older (getCaughtUpForNarrow (store w) scope)
       \<and> getFirstMessageId (store w) scope \<noteq> None")
  case True
  then have "fetchOlder deps reducer scope w =
      fetchMessages_request deps reducer
        \<lparr>narrow = scope, anchor = the (getFirstMessageId (store w) scope),
         numBefore = messagesPerRequest deps, numAfter = 0\<rparr> w"
    by (simp add: fetchOlder_def getState_def Let_def)
  with True show ?thesis
    by (auto simp add: fetchMessages_request_eq Let_def requests_def)
next
  case False
  then have "fetchOlder deps reducer scope w = w"
    by (auto simp add: fetchOlder_def getState_def Let_def)
  with False show ?thesis
    by (auto simp add: requests_def)
qed

theorem fetchOlder_witness:
  "fetchOlder example_deps (\<lambda>s a. s) ''stream:general'' example_world =
     \<lparr>store = example_state,
      trace = [Dispatch (MESSAGE_FETCH_START ''stream:general'' 50 0),
               ApiGetMessages example_auth [(''narrow'', ''stream:general'')] 1000 50 0 (Some False)]\<rparr>
   \<and> fetchOlder example_deps (\<lambda>s a. s) ''stream:other'' example_world = example_world"
proof -
  have a: "requests (new_events example_world
              (fetchOlder example_deps (\<lambda>s a. s) ''stream:general'' example_world)) \<noteq> []"
    using fetchOlder_iff_guard [of example_world example_deps "\<lambda>s a. s" "''stream:general''"]
    by (simp add: example_world_def example_state_def)
  have b: "requests (new_events example_world
              (fetchOlder example_deps (\<lambda>s a. s) ''stream:other'' example_world)) = []"
    using fetchOlder_iff_guard [of example_world example_deps "\<lambda>s a. s" "''stream:other''"]
    by (simp add: example_world_def example_state_def)
  show ?thesis
    using a b
      fetchOlder_iff_guard [of example_world example_deps "\<lambda>s a. s" "''stream:general''"]
      fetchOlder_iff_guard [of example_world example_deps "\<lambda>s a. s" "''stream:other''"]
    by (simp add: example_world_def example_state_def example_deps_def Let_def)
qed

text \<open>
  Claim C4. When the narrow is caught up in both directions, \<open>fetchMessagesInNarrow\<close>
  sends nothing, dispatches nothing and resolves with \<^verbatim>\<open>undefined\<close>. Otherwise it
  runs \<open>fetchMessages\<close> once: the trace gains the start action, a single request and the
  completion or error action, all with \<open>numBefore = numAfter = messagesPerRequest / 2\<close>
  and with the anchor given, or \<open>FIRST_UNREAD_ANCHOR\<close> when none was given.
\<close>

theorem fetchMessagesInNarrow_centering:
  "(older (getCaughtUpForNarrow (store w) scope) \<and> newer (getCaughtUpForNarrow (store w) scope) \<longrightarrow>
      fetchMessagesInNarrow deps reducer scope anchor_arg outcome w = (Inr None, w))
   \<and> (\<not> (older (getCaughtUpForNarrow (store w) scope) \<and> newer (getCaughtUpForNarrow (store w) scope)) \<longrightarrow>
      (let half = messagesPerRequest deps / 2;
           a = (case anchor_arg of None \<Rightarrow> FIRST_UNREAD_ANCHOR deps | Some given \<Rightarrow> given);
           start = MESSAGE_FETCH_START scope half half;
           s1 = reducer (store w) start;
           request = ApiGetMessages (getAuth s1) (apiNarrowOfNarrow deps scope (getAllUsersById s1))
                       a half half (Some (a = FIRST_UNREAD_ANCHOR deps));
           final = (case outcome of
                      Inr response \<Rightarrow>
                        MESSAGE_FETCH_COMPLETE (messages response) scope a half half
                          (found_newest response) (found_oldest response) (getOwnUserId s1)
                    | Inl e \<Rightarrow> MESSAGE_FETCH_ERROR scope e)
       in fetchMessagesInNarrow deps reducer scope anchor_arg outcome w =
            (case outcome of Inr response \<Rightarrow> Inr (Some (messages response)) | Inl e \<Rightarrow> Inl e,
             \<lparr>store = reducer s1 final,
              trace = trace w @ [Dispatch start, request, Dispatch final]\<rparr>)))"
proof (cases "older (getCaughtUpForNarrow (store w) scope) \<and> newer (getCaughtUpForNarrow (store w) scope)")
  case True
  then show ?thesis
    by (auto simp add: fetchMessagesInNarrow_def isFetchNeededAtAnchor_def getState_def Let_def)
next
  case False
  then have needed: "isFetchNeededAtAnchor (getState w) scope a" for a
    by (auto simp add: isFetchNeededAtAnchor_def getState_def Let_def)
  show ?thesis
    using False needed
    by (auto simp add: fetchMessagesInNarrow_def Let_def fetchMessages_eq
        split: sum.splits option.splits)
qed

theorem fetchMessagesInNarrow_witness:
  "fetchMessagesInNarrow example_deps (\<lambda>s a. s) ''stream:general'' None
      (Inr \<lparr>messages = [Message 998], found_newest = Some True, found_oldest = Some True\<rparr>)
      \<lparr>store = example_caught_up, trace = []\<rparr>
    = (Inr None, \<lparr>store = example_caught_up, trace = []\<rparr>)
   \<and> fetchMessagesInNarrow example_deps (\<lambda>s a. s) ''stream:general'' None
      (Inr \<lparr>messages = [Message 998], found_newest = Some True, found_oldest = Some True\<rparr>)
      example_world
    = (Inr (Some [Message 998]),
       \<lparr>store = example_state,
        trace = [Dispatch (MESSAGE_FETCH_START ''stream:general'' 25 25),
                 ApiGetMessages example_auth [(''narrow'', ''stream:general'')] 0 25 25 (Some True),
                 Dispatch (MESSAGE_FETCH_COMPLETE [Message 998] ''stream:general''
                   0 25 25 (Some True) (Some True) 7)]\<rparr>)"
  using fetchMessagesInNarrow_centering
    [of "\<lparr>store = example_caught_up, trace = []\<rparr>" "''stream:general''" example_deps "\<lambda>s a. s" None
      "Inr \<lparr>messages = [Message 998], found_newest = Some True, found_oldest = Some True\<rparr>"]
    fetchMessagesInNarrow_centering
    [of example_world "''stream:general''" example_deps "\<lambda>s a. s" None
      "Inr \<lparr>messages = [Message 998], found_newest = Some True, found_oldest = Some True\<rparr>"]
  by (simp add: example_world_def example_state_def example_deps_def example_caught_up_def Let_def)

text \<open>
  Claim C9. \<open>isFetchNeededAtAnchor\<close> gives the same answer for any two anchors, namely
  that the narrow is not caught up in both directions; and whether
  \<open>fetchMessagesInNarrow\<close> adds anything to the trace is the same for any two anchor
  arguments, and is decided by the two caught-up flags alone.
\<close>

theorem isFetchNeededAtAnchor_ignores_anchor:
  "isFetchNeededAtAnchor state scope a1 = isFetchNeededAtAnchor state scope a2
   \<and> isFetchNeededAtAnchor state scope a1 =
       (\<not> (older (getCaughtUpForNarrow state scope) \<and> newer (getCaughtUpForNarrow state scope)))
   \<and> (new_events w (snd (fetchMessagesInNarrow deps reducer scope arg1 outcome w)) = []) =
       (new_events w (snd (fetchMessagesInNarrow deps reducer scope arg2 outcome w)) = [])
   \<and> (new_events w (snd (fetchMessagesInNarrow deps reducer scope arg1 outcome w)) = []) =
       (older (getCaughtUpForNarrow (store w) scope) \<and> newer (getCaughtUpForNarrow (store w) scope))"
proof -
  have a: "isFetchNeededAtAnchor state scope a =
       (\<not> (older (getCaughtUpForNarrow state scope) \<and> newer (getCaughtUpForNarrow state scope)))"
    for state a
    by (auto simp add: isFetchNeededAtAnchor_def Let_def)
  have b: "(new_events w (snd (fetchMessagesInNarrow deps reducer scope arg outcome w)) = []) =
       (older (getCaughtUpForNarrow (store w) scope) \<and> newer (getCaughtUpForNarrow (store w) scope))"
    for arg
    by (simp add: fetchMessagesInNarrow_def a Let_def fetchMessages_eq getState_def
        split: sum.splits option.splits)
  show ?thesis using a b by blast
qed


theorem isFetchNeededAtAnchor_witness:
  "isFetchNeededAtAnchor example_state ''stream:general'' 0 =
     isFetchNeededAtAnchor example_state ''stream:general'' 1000
   \<and> isFetchNeededAtAnchor example_state ''stream:general'' 0
   \<and> \<not> isFetchNeededAtAnchor example_caught_up ''stream:general'' 1000
   \<and> new_events example_world
        (snd (fetchMessagesInNarrow example_deps (\<lambda>s a. s) ''stream:general'' None
               (Inl NetworkError) example_world)) \<noteq> []
   \<and> new_events example_world
        (snd (fetchMessagesInNarrow example_deps (\<lambda>s a. s) ''stream:general'' (Some 1000)
               (Inl NetworkError) example_world)) \<noteq> []"
proof -
  note open_view = isFetchNeededAtAnchor_ignores_anchor
      [where state = example_state and scope = "''stream:general''" and ?a1.0 = 0
        and ?a2.0 = 1000 and w = example_world and deps = example_deps
        and reducer = "\<lambda>s a. s" and ?arg1.0 = None and ?arg2.0 = "Some 1000"
        and outcome = "Inl NetworkError"]
  note caught_up_view = isFetchNeededAtAnchor_ignores_anchor
      [where state = example_caught_up and scope = "''stream:general''" and ?a1.0 = 1000
        and ?a2.0 = 0 and w = example_world and deps = example_deps
        and reducer = "\<lambda>s a. s" and ?arg1.0 = "Some 1000" and ?arg2.0 = None
        and outcome = "Inl NetworkError"]
  have a: "isFetchNeededAtAnchor example_state ''stream:general'' 0 =
     isFetchNeededAtAnchor example_state ''stream:general'' 1000"
    using open_view by (elim conjE)
  have b: "isFetchNeededAtAnchor example_state ''stream:general'' 0"
    using open_view by (elim conjE) (simp add: example_state_def)
  have c: "\<not> isFetchNeededAtAnchor example_caught_up ''stream:general'' 1000"
    using caught_up_view by (elim conjE) (simp add: example_caught_up_def)
  have d: "new_events example_world
        (snd (fetchMessagesInNarrow example_deps (\<lambda>s a. s) ''stream:general'' None
               (Inl NetworkError) example_world)) \<noteq> []"
    using open_view by (elim conjE) (simp add: example_world_def example_state_def)
  have e: "new_events example_world
        (snd (fetchMessagesInNarrow example_deps (\<lambda>s a. s) ''stream:general'' (Some 1000)
               (Inl NetworkError) example_world)) \<noteq> []"
    using open_view d by (elim conjE) simp
  from a b c d e show ?thesis by simp
qed

lemma fetchPrivateMessages_request_eq:
  "fetchPrivateMessages_request deps w =
     w\<lparr>trace := trace w @
          [ApiGetMessages (getAuth (store w))
             (apiNarrowOfNarrow deps (ALL_PRIVATE_NARROW deps) (getAllUsersById (store w)))
             (LAST_MESSAGE_ANCHOR deps) 100 0 None]\<rparr>"
  by (simp add: fetchPrivateMessages_request_def api_getMessages_def getState_def Let_def)

text \<open>
  Claim C10. A run of \<open>fetchPrivateMessages\<close> sends its request first, with no start
  action before it. When the request fails, the thunk rejects with the error and nothing
  at all is dispatched; when it succeeds, the one action dispatched is the completion for
  \<open>ALL_PRIVATE_NARROW\<close>.
\<close>

theorem fetchPrivateMessages_only_complete:
  "(let request = ApiGetMessages (getAuth (store w))
                    (apiNarrowOfNarrow deps (ALL_PRIVATE_NARROW deps) (getAllUsersById (store w)))
                    (LAST_MESSAGE_ANCHOR deps) 100 0 None
    in fetchPrivateMessages deps reducer outcome w =
         (case outcome of
            Inl e \<Rightarrow> (Inl e, \<lparr>store = store w, trace = trace w @ [request]\<rparr>)
          | Inr response \<Rightarrow>
              (let complete = MESSAGE_FETCH_COMPLETE (messages response) (ALL_PRIVATE_NARROW deps)
                                (LAST_MESSAGE_ANCHOR deps) 100 0
                                (found_newest response) (found_oldest response)
                                (getOwnUserId (store w))
               in (Inr (),
                   \<lparr>store = reducer (store w) complete,
                    trace = trace w @ [request, Dispatch complete]\<rparr>))))
   \<and> signals (new_events w (snd (fetchPrivateMessages deps reducer outcome w))) =
       (case outcome of
          Inl e \<Rightarrow> []
        | Inr response \<Rightarrow>
            [Dispatch (MESSAGE_FETCH_COMPLETE (messages response) (ALL_PRIVATE_NARROW deps)
                         (LAST_MESSAGE_ANCHOR deps) 100 0
                         (found_newest response) (found_oldest response)
                         (getOwnUserId (store w)))])"
  by (simp add: fetchPrivateMessages_def fetchPrivateMessages_settled_def
      fetchPrivateMessages_request_eq dispatch_def getState_def messageFetchComplete_def
      signals_def Let_def split: sum.splits)

theorem fetchPrivateMessages_witness:
  "fetchPrivateMessages example_deps (\<lambda>s a. s) (Inl NetworkError) example_world =
     (Inl NetworkError,
      \<lparr>store = example_state,
       trace = [ApiGetMessages example_auth [(''narrow'', ''is:private'')]
                  9007199254740991 100 0 None]\<rparr>)
   \<and> fetchPrivateMessages example_deps (\<lambda>s a. s)
       (Inr \<lparr>messages = [Message 5], found_newest = Some True, found_oldest = Some False\<rparr>)
       example_world =
     (Inr (),
      \<lparr>store = example_state,
       trace = [ApiGetMessages example_auth [(''narrow'', ''is:private'')]
                  9007199254740991 100 0 None,
                Dispatch (MESSAGE_FETCH_COMPLETE [Message 5] ''is:private''
                  9007199254740991 100 0 (Some True) (Some False) 7)]\<rparr>)"
  using fetchPrivateMessages_only_complete
      [of example_world example_deps "\<lambda>s a. s" "Inl NetworkError"]
    fetchPrivateMessages_only_complete
      [of example_world example_deps "\<lambda>s a. s"
        "Inr \<lparr>messages = [Message 5], found_newest = Some True, found_oldest = Some False\<rparr>"]
  by (simp add: example_world_def example_state_def example_deps_def Let_def)

section \<open>The initial fetch\<close>

lemma tryFetch_settles:
  assumes "\<forall>j<n. transient_failure deps (func j)" and "\<not> transient_failure deps (func n)"
  shows "tryFetch deps func = Some (func n, \<lparr>waitsCompleted = n\<rparr>)"
proof -
  have "tryFetch_loop deps func n m = Some (func n, m)" for m
    using assms(2)
    by (subst tryFetch_loop.simps) (simp add: transient_failure_def split: sum.splits)
  then show ?thesis
    using tryFetch_loop_retries [of n deps func 0 new_BackoffMachine] assms(1)
    by (simp add: tryFetch_def new_BackoffMachine_def)
qed

lemma Promise_all2_rejected:
  "p = Some (Inl e, m) \<or> q = Some (Inl e, m) \<Longrightarrow> \<exists>e'. Promise_all2 p q = Some (Inl e')"
  by (auto simp add: Promise_all2_def split: option.splits sum.splits prod.splits)

lemma Promise_all2_fulfilled:
  "p = Some (Inr x, m) \<Longrightarrow> q = Some (Inr y, m') \<Longrightarrow> Promise_all2 p q = Some (Inr (x, y))"
  by (simp add: Promise_all2_def)

text \<open>
  Claim C2. Let the retried registration, or the retried fetch of the server settings,
  end with a client error after any number of failures of the other class, whatever the
  other of the two calls does (it may succeed, fail or never settle). Then
  \<open>doInitialFetch\<close> returns, and all it has dispatched is the start action of the initial
  fetch followed by \<open>logout\<close>: no \<open>realmInit\<close> with the data of the registration and the
  server version, no \<open>INITIAL_FETCH_COMPLETE\<close>, no \<open>startEventPolling\<close>.
\<close>

theorem doInitialFetch_logout_on_client_error:
  "(let s1 = reducer (store w) INITIAL_FETCH_START;
        register = (\<lambda>k. registerForEvents api k (getAuth s1) (registerForEvents_params deps));
        settings = (\<lambda>k. getServerSettings api k (realm (getAuth s1)))
    in (\<exists>n e. (\<forall>j<n. transient_failure deps (register j)) \<and> register n = Inl e
               \<and> isClientError deps e)
       \<or> (\<exists>n e. (\<forall>j<n. transient_failure deps (settings j)) \<and> settings n = Inl e
               \<and> isClientError deps e)
       \<longrightarrow>
       doInitialFetch deps reducer api w =
         Some \<lparr>store = reducer s1 logout,
               trace = trace w @ [Dispatch INITIAL_FETCH_START, Dispatch logout]\<rparr>)"
proof -
  define s1 where "s1 = reducer (store w) INITIAL_FETCH_START"
  define register where
    "register = (\<lambda>k. registerForEvents api k (getAuth s1) (registerForEvents_params deps))"
  define settings where "settings = (\<lambda>k. getServerSettings api k (realm (getAuth s1)))"
  have "doInitialFetch deps reducer api w =
         Some \<lparr>store = reducer s1 logout,
               trace = trace w @ [Dispatch INITIAL_FETCH_START, Dispatch logout]\<rparr>"
    if "(\<exists>n e. (\<forall>j<n. transient_failure deps (register j)) \<and> register n = Inl e
               \<and> isClientError deps e)
       \<or> (\<exists>n e. (\<forall>j<n. transient_failure deps (settings j)) \<and> settings n = Inl e
               \<and> isClientError deps e)"
  proof -
    from that have "(\<exists>e m. tryFetch deps register = Some (Inl e, m))
        \<or> (\<exists>e m. tryFetch deps settings = Some (Inl e, m))"
    proof
      assume "\<exists>n e. (\<forall>j<n. transient_failure deps (register j)) \<and> register n = Inl e
               \<and> isClientError deps e"
      then obtain n e where "\<forall>j<n. transient_failure deps (register j)" "register n = Inl e"
        "isClientError deps e" by blast
      then have "tryFetch deps register = Some (Inl e, \<lparr>waitsCompleted = n\<rparr>)"
        using tryFetch_settles [of n deps register] by (simp add: transient_failure_def)
      then show ?thesis by blast
    next
      assume "\<exists>n e. (\<forall>j<n. transient_failure deps (settings j)) \<and> settings n = Inl e
               \<and> isClientError deps e"
      then obtain n e where "\<forall>j<n. transient_failure deps (settings j)" "settings n = Inl e"
        "isClientError deps e" by blast
      then have "tryFetch deps settings = Some (Inl e, \<lparr>waitsCompleted = n\<rparr>)"
        using tryFetch_settles [of n deps settings] by (simp add: transient_failure_def)
      then show ?thesis by blast
    qed
    then obtain e' where
      "Promise_all2 (tryFetch deps register) (tryFetch deps settings) = Some (Inl e')"
      using Promise_all2_rejected by blast
    then show ?thesis
      by (simp add: doInitialFetch_def Let_def dispatch_def getState_def initialFetchStart_def
          s1_def register_def settings_def)
  qed
  then show ?thesis
    by (simp add: Let_def s1_def register_def settings_def)
qed

theorem doInitialFetch_logout_witness:
  "doInitialFetch example_deps (\<lambda>s a. s) example_api_denied example_world =
     Some \<lparr>store = example_state, trace = [Dispatch INITIAL_FETCH_START, Dispatch logout]\<rparr>"
proof -
  have "\<exists>n e. (\<forall>j<n. transient_failure example_deps
                  (getServerSettings example_api_denied j (realm (getAuth example_state))))
         \<and> getServerSettings example_api_denied n (realm (getAuth example_state)) = Inl e
         \<and> isClientError example_deps e"
    by (rule exI [of _ 1], rule exI [of _ "ApiError 401"])
       (simp add: example_api_denied_def example_deps_def transient_failure_def http_4xx_def)
  then show ?thesis
    using doInitialFetch_logout_on_client_error
      [of "\<lambda>s a. s" example_world example_api_denied example_deps]
    by (simp add: example_world_def Let_def)
qed

lemma doInitialFetch_fulfilled:
  assumes "Promise_all2
             (tryFetch deps (\<lambda>k. registerForEvents api k
                (getAuth (reducer (store w) INITIAL_FETCH_START)) (registerForEvents_params deps)))
             (tryFetch deps (\<lambda>k. getServerSettings api k
                (realm (getAuth (reducer (store w) INITIAL_FETCH_START)))))
           = Some (Inr (initData, serverSettings))"
  shows "doInitialFetch deps reducer api w =
     (let s1 = reducer (store w) INITIAL_FETCH_START;
          serverVersion = ZulipVersion (zulip_version serverSettings);
          s2 = reducer s1 (realmInit initData serverVersion);
          s3 = reducer s2 INITIAL_FETCH_COMPLETE;
          s4 = reducer s3 (startEventPolling (queue_id initData) (last_event_id initData));
          legacy = ApiGetMessages (getAuth s4)
                     (apiNarrowOfNarrow deps (ALL_PRIVATE_NARROW deps) (getAllUsersById s4))
                     (LAST_MESSAGE_ANCHOR deps) 100 0 None
      in Some \<lparr>store = reducer (reducer s4 sendOutbox) initNotifications,
               trace = trace w @
                 [Dispatch INITIAL_FETCH_START,
                  Dispatch (realmInit initData serverVersion),
                  Dispatch INITIAL_FETCH_COMPLETE,
                  Dispatch (startEventPolling (queue_id initData) (last_event_id initData))]
                 @ (if isAtLeast deps serverVersion (MIN_RECENTPMS_SERVER_VERSION deps)
                    then [] else [legacy])
                 @ [Dispatch sendOutbox, Dispatch initNotifications]\<rparr>)"
  using assms
  by (simp add: doInitialFetch_def Let_def dispatch_def getState_def initialFetchStart_def
      initialFetchComplete_def fetchPrivateMessages_request_eq)

text \<open>
  Claim C6. Let both retried calls succeed, after any number of failures outside the
  client class. Then \<open>doInitialFetch\<close> returns with the trace below. It holds one
  \<open>api.getMessages\<close> request when the server version is not at least
  \<open>MIN_RECENTPMS_SERVER_VERSION\<close>, and none when it is. The request comes after
  \<open>INITIAL_FETCH_COMPLETE\<close>, is for \<open>ALL_PRIVATE_NARROW\<close> in the server's form, and has
  the anchor \<open>LAST_MESSAGE_ANCHOR\<close>, \<open>numBefore = 100\<close> and \<open>numAfter = 0\<close>.
\<close>

theorem doInitialFetch_legacy_fetch_by_version:
  "(let s1 = reducer (store w) INITIAL_FETCH_START;
        register = (\<lambda>k. registerForEvents api k (getAuth s1) (registerForEvents_params deps));
        settings = (\<lambda>k. getServerSettings api k (realm (getAuth s1)));
        serverVersion = ZulipVersion (zulip_version serverSettings);
        s2 = reducer s1 (realmInit initData serverVersion);
        s3 = reducer s2 INITIAL_FETCH_COMPLETE;
        s4 = reducer s3 (startEventPolling (queue_id initData) (last_event_id initData));
        legacy = ApiGetMessages (getAuth s4)
                   (apiNarrowOfNarrow deps (ALL_PRIVATE_NARROW deps) (getAllUsersById s4))
                   (LAST_MESSAGE_ANCHOR deps) 100 0 None
    in (\<forall>j<n. transient_failure deps (register j)) \<and> register n = Inr initData
       \<and> (\<forall>j<n'. transient_failure deps (settings j)) \<and> settings n' = Inr serverSettings
       \<longrightarrow>
       doInitialFetch deps reducer api w =
         Some \<lparr>store = reducer (reducer s4 sendOutbox) initNotifications,
               trace = trace w @
                 [Dispatch INITIAL_FETCH_START,
                  Dispatch (realmInit initData serverVersion),
                  Dispatch INITIAL_FETCH_COMPLETE,
                  Dispatch (startEventPolling (queue_id initData) (last_event_id initData))]
                 @ (if isAtLeast deps serverVersion (MIN_RECENTPMS_SERVER_VERSION deps)
                    then [] else [legacy])
                 @ [Dispatch sendOutbox, Dispatch initNotifications]\<rparr>
       \<and> length (requests (new_events w (the (doInitialFetch deps reducer api w)))) =
           (if isAtLeast deps serverVersion (MIN_RECENTPMS_SERVER_VERSION deps) then 0 else 1))"
proof -
  define s1 where "s1 = reducer (store w) INITIAL_FETCH_START"
  define register where
    "register = (\<lambda>k. registerForEvents api k (getAuth s1) (registerForEvents_params deps))"
  define settings where "settings = (\<lambda>k. getServerSettings api k (realm (getAuth s1)))"
  have "Promise_all2 (tryFetch deps register) (tryFetch deps settings) =
          Some (Inr (initData, serverSettings))"
    if "\<forall>j<n. transient_failure deps (register j)" "register n = Inr initData"
       "\<forall>j<n'. transient_failure deps (settings j)" "settings n' = Inr serverSettings"
  proof -
    have "tryFetch deps register = Some (Inr initData, \<lparr>waitsCompleted = n\<rparr>)"
      using tryFetch_settles [of n deps register] that(1,2) by (simp add: transient_failure_def)
    moreover have "tryFetch deps settings = Some (Inr serverSettings, \<lparr>waitsCompleted = n'\<rparr>)"
      using tryFetch_settles [of n' deps settings] that(3,4) by (simp add: transient_failure_def)
    ultimately show ?thesis by (rule Promise_all2_fulfilled)
  qed
  then show ?thesis
    unfolding s1_def register_def settings_def
    by (simp add: doInitialFetch_fulfilled Let_def requests_def new_events_def)
qed

theorem doInitialFetch_legacy_witness:
  "doInitialFetch example_deps (\<lambda>s a. s) (example_api ''2.0.0'') example_world =
     Some \<lparr>store = example_state,
           trace = [Dispatch INITIAL_FETCH_START,
                    Dispatch (realmInit example_reply (ZulipVersion ''2.0.0'')),
                    Dispatch INITIAL_FETCH_COMPLETE,
                    Dispatch (startEventPolling ''queue-1'' (-1)),
                    ApiGetMessages example_auth [(''narrow'', ''is:private'')]
                      9007199254740991 100 0 None,
                    Dispatch sendOutbox, Dispatch initNotifications]\<rparr>
   \<and> doInitialFetch example_deps (\<lambda>s a. s) (example_api ''3.0'') example_world =
     Some \<lparr>store = example_state,
           trace = [Dispatch INITIAL_FETCH_START,
                    Dispatch (realmInit example_reply (ZulipVersion ''3.0'')),
                    Dispatch INITIAL_FETCH_COMPLETE,
                    Dispatch (startEventPolling ''queue-1'' (-1)),
                    Dispatch sendOutbox, Dispatch initNotifications]\<rparr>"
  using doInitialFetch_legacy_fetch_by_version
      [where reducer = "\<lambda>s a. s" and w = example_world and api = "example_api ''2.0.0''"
        and deps = example_deps and n = 2 and n' = 0 and initData = example_reply
        and serverSettings = "\<lparr>zulip_version = ''2.0.0''\<rparr>"]
    doInitialFetch_legacy_fetch_by_version
      [where reducer = "\<lambda>s a. s" and w = example_world and api = "example_api ''3.0''"
        and deps = example_deps and n = 2 and n' = 0 and initData = example_reply
        and serverSettings = "\<lparr>zulip_version = ''3.0''\<rparr>"]
  by (simp add: example_world_def example_state_def example_deps_def example_api_def
      example_reply_def transient_failure_def http_4xx_def Let_def)

section \<open>Fetches in flight\<close>

lemma fetchNewer_in_flight:
  "newer (getFetchingForNarrow (store w) scope) \<Longrightarrow> fetchNewer deps reducer scope w = w"
  by (simp add: fetchNewer_def getState_def Let_def)

lemma fetchNewer_cases:
  "fetchNewer deps reducer scope w = w \<or>
   (\<exists>evs. fetchNewer deps reducer scope w =
      \<lparr>store = reducer (store w) (MESSAGE_FETCH_START scope 0 (messagesPerRequest deps)),
       trace = trace w @ evs\<rparr> \<and> requests evs \<noteq> [])"
  by (simp add: fetchNewer_def getState_def Let_def fetchMessages_request_eq requests_def)

lemma fetchNewer_keeps_flag:
  assumes "store_tracks_newer deps reducer" and "newer (getFetchingForNarrow (store w) scope)"
  shows "newer (getFetchingForNarrow (store (fetchNewer deps reducer n w)) scope)"
proof -
  have "\<not> finishes_fetch scope (MESSAGE_FETCH_START n 0 (messagesPerRequest deps))" by simp
  with assms have "newer (getFetchingForNarrow
      (reducer (store w) (MESSAGE_FETCH_START n 0 (messagesPerRequest deps))) scope)"
    unfolding store_tracks_newer_def by blast
  with assms(2) show ?thesis
    using fetchNewer_cases [of deps reducer n w] by auto
qed

lemma run_keeps_flag:
  assumes "store_tracks_newer deps reducer"
  shows "newer (getFetchingForNarrow (store w) scope) \<Longrightarrow>
         \<forall>s\<in>set stimuli. keeps_in_flight scope s \<Longrightarrow>
         newer (getFetchingForNarrow (store (run deps reducer stimuli w)) scope)"
proof (induction stimuli arbitrary: w)
  case Nil
  then show ?case by simp
next
  case (Cons s stimuli)
  show ?case
  proof (cases s)
    case (Call_fetchNewer n)
    with Cons show ?thesis
      by (simp add: fetchNewer_keeps_flag [OF assms])
  next
    case (Dispatched a)
    with Cons.prems have "\<not> finishes_fetch scope a" by simp
    with Cons.prems(1) assms
    have "newer (getFetchingForNarrow (store (dispatch reducer a w)) scope)"
      unfolding store_tracks_newer_def dispatch_def by simp
    with Cons Dispatched show ?thesis by simp
  qed
qed

lemma example_reducer_tracks: "store_tracks_newer example_deps example_reducer"
  unfolding store_tracks_newer_def
proof (intro conjI allI impI)
  fix state :: global_state and scope
  show "newer (getFetchingForNarrow
      (example_reducer state (MESSAGE_FETCH_START scope 0 (messagesPerRequest example_deps))) scope)"
    by (simp add: example_reducer_def example_deps_def)
next
  fix state :: global_state and a scope
  assume "newer (getFetchingForNarrow state scope) \<and> \<not> finishes_fetch scope a"
  then show "newer (getFetchingForNarrow (example_reducer state a) scope)"
    by (cases a) (auto simp add: example_reducer_def)
qed

lemma example_newer_in_flight_eq:
  "example_newer_in_flight =
     \<lparr>store = example_reducer example_state (MESSAGE_FETCH_START ''stream:general'' 0 50),
      trace = [Dispatch (MESSAGE_FETCH_START ''stream:general'' 0 50),
               ApiGetMessages example_auth [(''narrow'', ''stream:general'')] 2000 0 50 (Some False)]\<rparr>"
  by (simp add: example_newer_in_flight_def fetchNewer_def getState_def Let_def
      fetchMessages_request_eq example_world_def example_state_def example_deps_def
      example_reducer_def)

text \<open>
  Claim C7, amended. While the flag \<open>newer\<close> of \<open>fetching\<close> is set for a narrow,
  \<open>fetchNewer\<close> for that narrow leaves the world as it was: no request, no action; and
  so does any number of such calls one after the other. And with a store that keeps the
  flag as the spec asks: once \<open>fetchNewer\<close> has sent a request for a narrow, then after
  any history of further calls of \<open>fetchNewer\<close> (for any narrows) and of actions
  reaching the store, none of them a completion or an error for that narrow, the flag is
  still set and a call of \<open>fetchNewer\<close> for the narrow still does nothing. The history
  ends with the completion or error of any fetch of the narrow, not only with that of the
  request \<open>fetchNewer\<close> sent.
\<close>

theorem fetchNewer_not_while_in_flight:
  "(newer (getFetchingForNarrow (store w) scope) \<longrightarrow>
      fetchNewer deps reducer scope w = w
      \<and> run deps reducer (replicate k (Call_fetchNewer scope)) w = w)
   \<and> (store_tracks_newer deps reducer
       \<and> requests (new_events w (fetchNewer deps reducer scope w)) \<noteq> []
       \<and> (\<forall>s\<in>set stimuli. keeps_in_flight scope s) \<longrightarrow>
       (let w1 = fetchNewer deps reducer scope w;
            w2 = run deps reducer stimuli w1
        in newer (getFetchingForNarrow (store w2) scope)
           \<and> fetchNewer deps reducer scope w2 = w2))"
proof (intro conjI impI)
  assume "newer (getFetchingForNarrow (store w) scope)"
  then show "fetchNewer deps reducer scope w = w" by (rule fetchNewer_in_flight)
next
  assume "newer (getFetchingForNarrow (store w) scope)"
  then show "run deps reducer (replicate k (Call_fetchNewer scope)) w = w"
    by (induction k) (simp_all add: fetchNewer_in_flight)
next
  assume a: "store_tracks_newer deps reducer
       \<and> requests (new_events w (fetchNewer deps reducer scope w)) \<noteq> []
       \<and> (\<forall>s\<in>set stimuli. keeps_in_flight scope s)"
  then have "fetchNewer deps reducer scope w \<noteq> w" by (auto simp add: requests_def)
  then have "store (fetchNewer deps reducer scope w) =
      reducer (store w) (MESSAGE_FETCH_START scope 0 (messagesPerRequest deps))"
    using fetchNewer_cases [of deps reducer scope w] by auto
  with a have "newer (getFetchingForNarrow (store (fetchNewer deps reducer scope w)) scope)"
    unfolding store_tracks_newer_def by simp
  with a have "newer (getFetchingForNarrow
      (store (run deps reducer stimuli (fetchNewer deps reducer scope w))) scope)"
    by (intro run_keeps_flag) simp_all
  then show "let w1 = fetchNewer deps reducer scope w;
            w2 = run deps reducer stimuli w1
        in newer (getFetchingForNarrow (store w2) scope)
           \<and> fetchNewer deps reducer scope w2 = w2"
    by (simp add: Let_def fetchNewer_in_flight)
qed

theorem fetchNewer_witness:
  "store_tracks_newer example_deps example_reducer
   \<and> fetchNewer example_deps example_reducer ''stream:general''
        (fetchNewer example_deps example_reducer ''stream:general'' example_world) =
       fetchNewer example_deps example_reducer ''stream:general'' example_world
   \<and> run example_deps example_reducer
        [Call_fetchNewer ''stream:general'',
         Dispatched (MESSAGE_FETCH_START ''stream:other'' 25 25),
         Call_fetchNewer ''stream:general'']
        example_world =
       \<lparr>store = example_reducer
                  (example_reducer example_state (MESSAGE_FETCH_START ''stream:general'' 0 50))
                  (MESSAGE_FETCH_START ''stream:other'' 25 25),
        trace = [Dispatch (MESSAGE_FETCH_START ''stream:general'' 0 50),
                 ApiGetMessages example_auth [(''narrow'', ''stream:general'')] 2000 0 50 (Some False),
                 Dispatch (MESSAGE_FETCH_START ''stream:other'' 25 25)]\<rparr>"
proof -
  let ?stimuli = "[Dispatched (MESSAGE_FETCH_START ''stream:other'' 25 25)]"
  let ?w1 = "fetchNewer example_deps example_reducer ''stream:general'' example_world"
  have first: "?w1 =
       \<lparr>store = example_reducer example_state (MESSAGE_FETCH_START ''stream:general'' 0 50),
        trace = [Dispatch (MESSAGE_FETCH_START ''stream:general'' 0 50),
                 ApiGetMessages example_auth [(''narrow'', ''stream:general'')] 2000 0 50 (Some False)]\<rparr>"
    by (simp add: fetchNewer_def getState_def Let_def fetchMessages_request_eq
        example_world_def example_state_def example_deps_def example_reducer_def)
  have issued: "requests (new_events example_world ?w1) \<noteq> []"
    unfolding first by (simp add: example_world_def new_events_def requests_def)
  have "fetchNewer example_deps example_reducer ''stream:general''
          (run example_deps example_reducer ?stimuli ?w1) =
        run example_deps example_reducer ?stimuli ?w1"
    using fetchNewer_not_while_in_flight
      [where deps = example_deps and reducer = example_reducer and w = example_world
        and scope = "''stream:general''" and stimuli = ?stimuli]
      example_reducer_tracks issued
    by (simp add: Let_def)
  then have "run example_deps example_reducer
        [Call_fetchNewer ''stream:general'',
         Dispatched (MESSAGE_FETCH_START ''stream:other'' 25 25),
         Call_fetchNewer ''stream:general''] example_world =
       run example_deps example_reducer ?stimuli ?w1"
    by simp
  also have "\<dots> = \<lparr>store = example_reducer
                  (example_reducer example_state (MESSAGE_FETCH_START ''stream:general'' 0 50))
                  (MESSAGE_FETCH_START ''stream:other'' 25 25),
        trace = [Dispatch (MESSAGE_FETCH_START ''stream:general'' 0 50),
                 ApiGetMessages example_auth [(''narrow'', ''stream:general'')] 2000 0 50 (Some False),
                 Dispatch (MESSAGE_FETCH_START ''stream:other'' 25 25)]\<rparr>"
    unfolding first by (simp add: dispatch_def)
  finally have history: "run example_deps example_reducer
        [Call_fetchNewer ''stream:general'',
         Dispatched (MESSAGE_FETCH_START ''stream:other'' 25 25),
         Call_fetchNewer ''stream:general''] example_world =
       \<lparr>store = example_reducer
                  (example_reducer example_state (MESSAGE_FETCH_START ''stream:general'' 0 50))
                  (MESSAGE_FETCH_START ''stream:other'' 25 25),
        trace = [Dispatch (MESSAGE_FETCH_START ''stream:general'' 0 50),
                 ApiGetMessages example_auth [(''narrow'', ''stream:general'')] 2000 0 50 (Some False),
                 Dispatch (MESSAGE_FETCH_START ''stream:other'' 25 25)]\<rparr>" .
  have "newer (getFetchingForNarrow (store ?w1) ''stream:general'')"
    unfolding first by (simp add: example_reducer_def)
  then have again: "fetchNewer example_deps example_reducer ''stream:general'' ?w1 = ?w1"
    using fetchNewer_not_while_in_flight
      [where deps = example_deps and reducer = example_reducer and w = ?w1
        and scope = "''stream:general''" and stimuli = "[]" and k = 1]
    by blast
  from example_reducer_tracks again history show ?thesis by simp
qed


text \<open>
  Claim C7 as first stated, that no second request for newer messages goes out for a
  narrow before the first has completed, fails. \<open>fetchMessagesInNarrow\<close> reads the
  caught-up flags only, so it runs while the request of \<open>fetchNewer\<close> is in flight; its
  completion action clears the flag \<open>newer\<close> of the narrow; and the next \<open>fetchNewer\<close>
  sends the same request again. No completion or error of the first request is in the
  trace.
\<close>

theorem fetchNewer_second_request_counterexample:
  "store_tracks_newer example_deps example_reducer
   \<and> trace example_newer_in_flight =
       [Dispatch (MESSAGE_FETCH_START ''stream:general'' 0 50),
        ApiGetMessages example_auth [(''narrow'', ''stream:general'')] 2000 0 50 (Some False)]
   \<and> newer (getFetchingForNarrow (store example_newer_in_flight) ''stream:general'')
   \<and> \<not> newer (getFetchingForNarrow (store example_centred) ''stream:general'')
   \<and> trace (fetchNewer example_deps example_reducer ''stream:general'' example_centred) =
       [Dispatch (MESSAGE_FETCH_START ''stream:general'' 0 50),
        ApiGetMessages example_auth [(''narrow'', ''stream:general'')] 2000 0 50 (Some False),
        Dispatch (MESSAGE_FETCH_START ''stream:general'' 25 25),
        ApiGetMessages example_auth [(''narrow'', ''stream:general'')] 0 25 25 (Some True),
        Dispatch (MESSAGE_FETCH_COMPLETE [Message 1999] ''stream:general'' 0 25 25
                    (Some False) (Some False) 7),
        Dispatch (MESSAGE_FETCH_START ''stream:general'' 0 50),
        ApiGetMessages example_auth [(''narrow'', ''stream:general'')] 2000 0 50 (Some False)]"
proof -
  have flag: "newer (getFetchingForNarrow (store example_newer_in_flight) ''stream:general'')"
    unfolding example_newer_in_flight_eq by (simp add: example_reducer_def)
  have centred: "example_centred =
     \<lparr>store = example_reducer
                (example_reducer
                   (example_reducer example_state (MESSAGE_FETCH_START ''stream:general'' 0 50))
                   (MESSAGE_FETCH_START ''stream:general'' 25 25))
                (MESSAGE_FETCH_COMPLETE [Message 1999] ''stream:general'' 0 25 25
                    (Some False) (Some False) 7),
      trace = [Dispatch (MESSAGE_FETCH_START ''stream:general'' 0 50),
        ApiGetMessages example_auth [(''narrow'', ''stream:general'')] 2000 0 50 (Some False),
        Dispatch (MESSAGE_FETCH_START ''stream:general'' 25 25),
        ApiGetMessages example_auth [(''narrow'', ''stream:general'')] 0 25 25 (Some True),
        Dispatch (MESSAGE_FETCH_COMPLETE [Message 1999] ''stream:general'' 0 25 25
                    (Some False) (Some False) 7)]\<rparr>"
    unfolding example_centred_def example_newer_in_flight_eq
    by (simp add: fetchMessagesInNarrow_def isFetchNeededAtAnchor_def getState_def Let_def
        fetchMessages_eq example_state_def example_deps_def example_reducer_def)
  have cleared: "\<not> newer (getFetchingForNarrow (store example_centred) ''stream:general'')"
    unfolding centred by (simp add: example_reducer_def example_state_def)
  have again: "trace (fetchNewer example_deps example_reducer ''stream:general'' example_centred) =
       [Dispatch (MESSAGE_FETCH_START ''stream:general'' 0 50),
        ApiGetMessages example_auth [(''narrow'', ''stream:general'')] 2000 0 50 (Some False),
        Dispatch (MESSAGE_FETCH_START ''stream:general'' 25 25),
        ApiGetMessages example_auth [(''narrow'', ''stream:general'')] 0 25 25 (Some True),
        Dispatch (MESSAGE_FETCH_COMPLETE [Message 1999] ''stream:general'' 0 25 25
                    (Some False) (Some False) 7),
        Dispatch (MESSAGE_FETCH_START ''stream:general'' 0 50),
        ApiGetMessages example_auth [(''narrow'', ''stream:general'')] 2000 0 50 (Some False)]"
    unfolding centred
    by (simp add: fetchNewer_def getState_def Let_def fetchMessages_request_eq
        example_state_def example_deps_def example_reducer_def)
  from example_reducer_tracks flag cleared again show ?thesis
    by (simp add: example_newer_in_flight_eq)
qed

section \<open>Failures\<close>

lemma tryFetch_result:
  assumes "tryFetch deps func = Some (r, m)"
  shows "r = func (waitsCompleted m) \<and> (\<forall>j<waitsCompleted m. transient_failure deps (func j))
         \<and> \<not> transient_failure deps r"
proof -
  from tryFetch_loop_result [of deps func 0 new_BackoffMachine "(r, m)"] assms
  obtain n where n: "waitsCompleted m = n" "r = func n"
    "\<forall>j<n. transient_failure deps (func j)" "\<forall>e. r = Inl e \<longrightarrow> isClientError deps e"
    by (auto simp add: tryFetch_def new_BackoffMachine_def)
  from n(4) have "\<not> transient_failure deps r"
    by (cases r) (auto simp add: transient_failure_def)
  with n show ?thesis by simp
qed

lemma tryFetch_pending:
  assumes "tryFetch deps func = None"
  shows "transient_failure deps (func k)"
proof (rule ccontr)
  assume "\<not> transient_failure deps (func k)"
  define n where "n = (LEAST k. \<not> transient_failure deps (func k))"
  have "\<not> transient_failure deps (func n)"
    unfolding n_def using \<open>\<not> transient_failure deps (func k)\<close> by (rule LeastI)
  moreover have "\<forall>j<n. transient_failure deps (func j)"
    unfolding n_def using not_less_Least by blast
  ultimately have "tryFetch deps func = Some (func n, \<lparr>waitsCompleted = n\<rparr>)"
    using tryFetch_settles by blast
  with assms show False by simp
qed

lemma doInitialFetch_whole_failed_legacy:
  "doInitialFetch_whole deps reducer api (Inl e) w =
     map_option
       (\<lambda>w'. \<lparr>after = w', own_promise = Inr (),
              legacy_promise = (if requests (new_events w w') = [] then None else Some (Inl e))\<rparr>)
       (doInitialFetch deps reducer api w)"
  by (simp add: doInitialFetch_whole_def doInitialFetch_def Let_def
      fetchPrivateMessages_settled_def fetchPrivateMessages_request_eq dispatch_def
      getState_def new_events_def requests_def initialFetchStart_def initialFetchComplete_def
      split: option.splits sum.splits prod.splits)

text \<open>
  Claim C8, amended. What becomes of a failed request, thunk by thunk.
  \<^item> \<open>fetchMessages\<close>: the error action is dispatched and the promise rejects with the
    same error. \<open>fetchMessagesInNarrow\<close>, \<open>fetchOlder\<close> and \<open>fetchNewer\<close> either send no
    request, their guard being false, or run \<open>fetchMessages\<close> for the narrow.
  \<^item> \<open>fetchPrivateMessages\<close>, run by itself: the promise rejects with the same error.
  \<^item> \<open>tryFetch\<close>: when it settles, it settles as the last invocation did, and every
    invocation before that one failed outside the client class and was followed by
    another; when it never settles, every invocation fails that way and is followed by
    another.
  \<^item> \<open>doInitialFetch\<close>: when one of its two retried calls rejects, \<open>logout\<close> is
    dispatched. The failure of its third request, the one of \<open>fetchPrivateMessages\<close>, is
    the exception: the rejected promise is discarded, the world is the one
    \<open>doInitialFetch\<close> left, with nothing dispatched for the failure and no second
    request, and the promise of \<open>doInitialFetch\<close> is resolved.
\<close>

theorem failure_dispositions:
  "(fetchMessages_settled reducer fetchArgs (Inl e) w =
       (Inl e, \<lparr>store = reducer (store w) (MESSAGE_FETCH_ERROR (narrow fetchArgs) e),
                trace = trace w @ [Dispatch (MESSAGE_FETCH_ERROR (narrow fetchArgs) e)]\<rparr>))
   \<and> (fst (fetchMessages deps reducer fetchArgs (Inl e) w) = Inl e
       \<and> Dispatch (MESSAGE_FETCH_ERROR (narrow fetchArgs) e)
           \<in> set (new_events w (snd (fetchMessages deps reducer fetchArgs (Inl e) w))))
   \<and> (requests (new_events w (snd (fetchMessagesInNarrow deps reducer scope anchor_arg (Inl e) w))) = []
       \<or> (fst (fetchMessagesInNarrow deps reducer scope anchor_arg (Inl e) w) = Inl e
           \<and> Dispatch (MESSAGE_FETCH_ERROR scope e)
               \<in> set (new_events w (snd (fetchMessagesInNarrow deps reducer scope anchor_arg (Inl e) w)))))
   \<and> (requests (new_events w (fetchOlder deps reducer scope w)) = []
       \<or> (\<exists>fetchArgs. narrow fetchArgs = scope
             \<and> fetchOlder deps reducer scope w = fetchMessages_request deps reducer fetchArgs w))
   \<and> (requests (new_events w (fetchNewer deps reducer scope w)) = []
       \<or> (\<exists>fetchArgs. narrow fetchArgs = scope
             \<and> fetchNewer deps reducer scope w = fetchMessages_request deps reducer fetchArgs w))
   \<and> fst (fetchPrivateMessages deps reducer (Inl e) w) = Inl e
   \<and> (\<forall>r m. tryFetch deps func = Some (r, m) \<longrightarrow>
         r = func (waitsCompleted m) \<and> (\<forall>j<waitsCompleted m. transient_failure deps (func j)))
   \<and> (tryFetch deps func = None \<longrightarrow> (\<forall>k. transient_failure deps (func k)))
   \<and> ((\<exists>e' m. tryFetch deps (\<lambda>k. registerForEvents api k
                    (getAuth (reducer (store w) INITIAL_FETCH_START))
                    (registerForEvents_params deps)) = Some (Inl e', m))
        \<or> (\<exists>e' m. tryFetch deps (\<lambda>k. getServerSettings api k
                    (realm (getAuth (reducer (store w) INITIAL_FETCH_START)))) = Some (Inl e', m))
       \<longrightarrow> (\<exists>w'. doInitialFetch deps reducer api w = Some w'
                  \<and> Dispatch logout \<in> set (new_events w w')))
   \<and> doInitialFetch_whole deps reducer api (Inl e) w =
       map_option
         (\<lambda>w'. \<lparr>after = w', own_promise = Inr (),
                legacy_promise =
                  (if requests (new_events w w') = [] then None else Some (Inl e))\<rparr>)
         (doInitialFetch deps reducer api w)"
proof (intro conjI)
  show "doInitialFetch_whole deps reducer api (Inl e) w =
       map_option
         (\<lambda>w'. \<lparr>after = w', own_promise = Inr (),
                legacy_promise =
                  (if requests (new_events w w') = [] then None else Some (Inl e))\<rparr>)
         (doInitialFetch deps reducer api w)"
    by (rule doInitialFetch_whole_failed_legacy)
  show "fetchMessages_settled reducer fetchArgs (Inl e) w =
       (Inl e, \<lparr>store = reducer (store w) (MESSAGE_FETCH_ERROR (narrow fetchArgs) e),
                trace = trace w @ [Dispatch (MESSAGE_FETCH_ERROR (narrow fetchArgs) e)]\<rparr>)"
    by (simp add: fetchMessages_settled_def dispatch_def messageFetchError_def)
  show "fst (fetchMessages deps reducer fetchArgs (Inl e) w) = Inl e"
    by (simp add: fetchMessages_eq Let_def)
  show "Dispatch (MESSAGE_FETCH_ERROR (narrow fetchArgs) e)
           \<in> set (new_events w (snd (fetchMessages deps reducer fetchArgs (Inl e) w)))"
    by (simp add: fetchMessages_eq Let_def)
  show "requests (new_events w (snd (fetchMessagesInNarrow deps reducer scope anchor_arg (Inl e) w))) = []
       \<or> (fst (fetchMessagesInNarrow deps reducer scope anchor_arg (Inl e) w) = Inl e
           \<and> Dispatch (MESSAGE_FETCH_ERROR scope e)
               \<in> set (new_events w (snd (fetchMessagesInNarrow deps reducer scope anchor_arg (Inl e) w))))"
    by (simp add: fetchMessagesInNarrow_def fetchMessages_eq Let_def requests_def)
  show "requests (new_events w (fetchOlder deps reducer scope w)) = []
       \<or> (\<exists>fetchArgs. narrow fetchArgs = scope
             \<and> fetchOlder deps reducer scope w = fetchMessages_request deps reducer fetchArgs w)"
    by (auto simp add: fetchOlder_def Let_def requests_def
        intro: exI [of _ "\<lparr>narrow = scope, anchor = a, numBefore = b, numAfter = c\<rparr>" for a b c])
  show "requests (new_events w (fetchNewer deps reducer scope w)) = []
       \<or> (\<exists>fetchArgs. narrow fetchArgs = scope
             \<and> fetchNewer deps reducer scope w = fetchMessages_request deps reducer fetchArgs w)"
    by (auto simp add: fetchNewer_def Let_def requests_def
        intro: exI [of _ "\<lparr>narrow = scope, anchor = a, numBefore = b, numAfter = c\<rparr>" for a b c])
  show "fst (fetchPrivateMessages deps reducer (Inl e) w) = Inl e"
    by (simp add: fetchPrivateMessages_def fetchPrivateMessages_settled_def)
  show "\<forall>r m. tryFetch deps func = Some (r, m) \<longrightarrow>
         r = func (waitsCompleted m) \<and> (\<forall>j<waitsCompleted m. transient_failure deps (func j))"
    using tryFetch_result by blast
  show "tryFetch deps func = None \<longrightarrow> (\<forall>k. transient_failure deps (func k))"
    using tryFetch_pending by blast
  show "(\<exists>e' m. tryFetch deps (\<lambda>k. registerForEvents api k
                    (getAuth (reducer (store w) INITIAL_FETCH_START))
                    (registerForEvents_params deps)) = Some (Inl e', m))
        \<or> (\<exists>e' m. tryFetch deps (\<lambda>k. getServerSettings api k
                    (realm (getAuth (reducer (store w) INITIAL_FETCH_START)))) = Some (Inl e', m))
       \<longrightarrow> (\<exists>w'. doInitialFetch deps reducer api w = Some w'
                  \<and> Dispatch logout \<in> set (new_events w w'))"
  proof
    assume "(\<exists>e' m. tryFetch deps (\<lambda>k. registerForEvents api k
                    (getAuth (reducer (store w) INITIAL_FETCH_START))
                    (registerForEvents_params deps)) = Some (Inl e', m))
        \<or> (\<exists>e' m. tryFetch deps (\<lambda>k. getServerSettings api k
                    (realm (getAuth (reducer (store w) INITIAL_FETCH_START)))) = Some (Inl e', m))"
    then obtain e' where "Promise_all2
        (tryFetch deps (\<lambda>k. registerForEvents api k
                    (getAuth (reducer (store w) INITIAL_FETCH_START))
                    (registerForEvents_params deps)))
        (tryFetch deps (\<lambda>k. getServerSettings api k
                    (realm (getAuth (reducer (store w) INITIAL_FETCH_START))))) = Some (Inl e')"
      using Promise_all2_rejected by blast
    then show "\<exists>w'. doInitialFetch deps reducer api w = Some w'
                  \<and> Dispatch logout \<in> set (new_events w w')"
      by (simp add: doInitialFetch_def Let_def dispatch_def getState_def initialFetchStart_def
          new_events_def)
  qed
qed

theorem failure_dispositions_witness:
  "fst (fetchMessages example_deps (\<lambda>s a. s)
         \<lparr>narrow = ''stream:general'', anchor = 1000, numBefore = 50, numAfter = 0\<rparr>
         (Inl NetworkError) example_world) = Inl NetworkError
   \<and> Dispatch (MESSAGE_FETCH_ERROR ''stream:general'' NetworkError)
        \<in> set (new_events example_world (snd (fetchMessages example_deps (\<lambda>s a. s)
              \<lparr>narrow = ''stream:general'', anchor = 1000, numBefore = 50, numAfter = 0\<rparr>
              (Inl NetworkError) example_world)))
   \<and> fst (fetchPrivateMessages example_deps (\<lambda>s a. s) (Inl NetworkError) example_world)
        = Inl NetworkError
   \<and> (\<exists>w'. doInitialFetch example_deps (\<lambda>s a. s) example_api_denied example_world = Some w'
            \<and> Dispatch logout \<in> set (new_events example_world w'))
   \<and> transient_failure example_deps
        (getServerSettings example_api_denied 0 (realm (getAuth (store example_world))))
   \<and> map_option after
        (doInitialFetch_whole example_deps (\<lambda>s a. s) example_api_denied (Inl NetworkError)
           example_world) =
       doInitialFetch example_deps (\<lambda>s a. s) example_api_denied example_world"
proof -
  let ?settings = "\<lambda>k. getServerSettings example_api_denied k
      (realm (getAuth (store example_world)))"
  have denied: "tryFetch example_deps ?settings = Some (Inl (ApiError 401), \<lparr>waitsCompleted = 1\<rparr>)"
    using tryFetch_settles [of 1 example_deps ?settings]
    by (simp add: example_api_denied_def example_deps_def transient_failure_def http_4xx_def)
  note facts = failure_dispositions
    [where deps = example_deps and reducer = "\<lambda>s a. s" and w = example_world
      and fetchArgs = "\<lparr>narrow = ''stream:general'', anchor = 1000, numBefore = 50, numAfter = 0\<rparr>"
      and e = NetworkError and scope = "''stream:general''" and anchor_arg = None
      and api = example_api_denied and func = ?settings]
  have "\<exists>w'. doInitialFetch example_deps (\<lambda>s a. s) example_api_denied example_world = Some w'
            \<and> Dispatch logout \<in> set (new_events example_world w')"
    using facts denied by blast
  moreover have "fst (fetchMessages example_deps (\<lambda>s a. s)
         \<lparr>narrow = ''stream:general'', anchor = 1000, numBefore = 50, numAfter = 0\<rparr>
         (Inl NetworkError) example_world) = Inl NetworkError"
    using facts by simp
  moreover have "Dispatch (MESSAGE_FETCH_ERROR ''stream:general'' NetworkError)
        \<in> set (new_events example_world (snd (fetchMessages example_deps (\<lambda>s a. s)
              \<lparr>narrow = ''stream:general'', anchor = 1000, numBefore = 50, numAfter = 0\<rparr>
              (Inl NetworkError) example_world)))"
    using facts by simp
  moreover have "fst (fetchPrivateMessages example_deps (\<lambda>s a. s) (Inl NetworkError) example_world)
        = Inl NetworkError"
    using facts by simp
  moreover have "transient_failure example_deps (?settings 0)"
    using facts denied by simp
  moreover have "map_option after
        (doInitialFetch_whole example_deps (\<lambda>s a. s) example_api_denied (Inl NetworkError)
           example_world) =
       doInitialFetch example_deps (\<lambda>s a. s) example_api_denied example_world"
  proof -
    from facts have "doInitialFetch_whole example_deps (\<lambda>s a. s) example_api_denied
          (Inl NetworkError) example_world =
        map_option
          (\<lambda>w'. \<lparr>after = w', own_promise = Inr (),
                 legacy_promise =
                   (if requests (new_events example_world w') = [] then None
                    else Some (Inl NetworkError))\<rparr>)
          (doInitialFetch example_deps (\<lambda>s a. s) example_api_denied example_world)"
      by (elim conjE)
    then show ?thesis by (simp add: option.map_comp comp_def option.map_ident)
  qed
  ultimately show ?thesis by simp
qed

text \<open>
  Claim C8 as first stated, that every failed request is retried, raised to the caller or
  answered by an error or logout action, fails for the request of
  \<open>fetchPrivateMessages\<close> inside \<open>doInitialFetch\<close>. With a server older than
  \<open>MIN_RECENTPMS_SERVER_VERSION\<close> and that request failing: the request is in the trace
  once, no error action and no \<open>logout\<close> follow it, the promise of \<open>doInitialFetch\<close> is
  resolved, and the rejection stays in the discarded promise.
\<close>

theorem doInitialFetch_drops_legacy_failure_counterexample:
  "doInitialFetch_whole example_deps (\<lambda>s a. s) (example_api ''2.0.0'') (Inl NetworkError)
      example_world =
     Some \<lparr>after =
             \<lparr>store = example_state,
              trace = [Dispatch INITIAL_FETCH_START,
                       Dispatch (realmInit example_reply (ZulipVersion ''2.0.0'')),
                       Dispatch INITIAL_FETCH_COMPLETE,
                       Dispatch (startEventPolling ''queue-1'' (-1)),
                       ApiGetMessages example_auth [(''narrow'', ''is:private'')]
                         9007199254740991 100 0 None,
                       Dispatch sendOutbox, Dispatch initNotifications]\<rparr>,
           own_promise = Inr (),
           legacy_promise = Some (Inl NetworkError)\<rparr>"
proof -
  let ?register = "\<lambda>k. registerForEvents (example_api ''2.0.0'') k example_auth
      (registerForEvents_params example_deps)"
  let ?settings = "\<lambda>k. getServerSettings (example_api ''2.0.0'') k (realm example_auth)"
  have "tryFetch example_deps ?register = Some (Inr example_reply, \<lparr>waitsCompleted = 2\<rparr>)"
    using tryFetch_settles [of 2 example_deps ?register]
    by (simp add: example_api_def example_deps_def example_reply_def transient_failure_def
        http_4xx_def)
  moreover have "tryFetch example_deps ?settings =
      Some (Inr \<lparr>zulip_version = ''2.0.0''\<rparr>, \<lparr>waitsCompleted = 0\<rparr>)"
    using tryFetch_settles [of 0 example_deps ?settings]
    by (simp add: example_api_def transient_failure_def)
  ultimately have "Promise_all2 (tryFetch example_deps ?register) (tryFetch example_deps ?settings)
      = Some (Inr (example_reply, \<lparr>zulip_version = ''2.0.0''\<rparr>))"
    by (rule Promise_all2_fulfilled)
  then show ?thesis
    by (simp add: doInitialFetch_whole_def Let_def dispatch_def getState_def
        initialFetchStart_def initialFetchComplete_def fetchPrivateMessages_request_eq
        fetchPrivateMessages_settled_def example_world_def example_state_def
        example_deps_def example_reply_def)
qed

end
